theory Spec2Isabelle
  imports Main
begin

section \<open>JavaScript strings and values\<close>

text \<open>
  A JavaScript string is modelled as a \<^typ>\<open>string\<close>: a list of code units, each below 256.
  The helpers of this section are the library calls the source uses, written out:
  \<open>String.prototype.trim\<close>, \<open>split\<close>, \<open>join\<close>, \<open>startsWith\<close>, \<open>includes\<close>,
  \<open>indexOf\<close> and \<open>lastIndexOf\<close>.
\<close>

definition isSpace :: "char \<Rightarrow> bool" where
  \<comment> \<open>the regular expression class \<open>\s\<close> and the characters \<open>trim\<close> strips, below 256\<close>
  "isSpace c = (c \<in> set [CHR 0x09, CHR 0x0A, CHR 0x0B, CHR 0x0C, CHR 0x0D, CHR 0x20, CHR 0xA0])"

definition trim :: "string \<Rightarrow> string" where
  "trim s = rev (dropWhile isSpace (rev (dropWhile isSpace s)))"

fun splitOn :: "(char \<Rightarrow> bool) \<Rightarrow> string \<Rightarrow> string list" where
  \<comment> \<open>\<open>s.split(sep)\<close> for a separator that matches exactly one character\<close>
  "splitOn p [] = [[]]"
| "splitOn p (c # cs) =
     (if p c then [] # splitOn p cs
      else (case splitOn p cs of
              [] \<Rightarrow> [[c]]
            | w # ws \<Rightarrow> (c # w) # ws))"

fun joinWith :: "string \<Rightarrow> string list \<Rightarrow> string" where
  \<comment> \<open>\<open>xs.join(sep)\<close>\<close>
  "joinWith sep [] = []"
| "joinWith sep [x] = x"
| "joinWith sep (x # y # ys) = x @ sep @ joinWith sep (y # ys)"

definition filterBoolean :: "string list \<Rightarrow> string list" where
  \<comment> \<open>\<open>xs.filter(Boolean)\<close> on strings: the empty string is the only falsy one\<close>
  "filterBoolean xs = filter (\<lambda>s. s \<noteq> []) xs"

fun startsWith :: "string \<Rightarrow> string \<Rightarrow> bool" where
  \<comment> \<open>\<open>s.startsWith(p)\<close>, written \<open>startsWith p s\<close>\<close>
  "startsWith [] s = True"
| "startsWith (p # ps) [] = False"
| "startsWith (p # ps) (c # cs) = (p = c \<and> startsWith ps cs)"

fun includesStr :: "string \<Rightarrow> string \<Rightarrow> bool" where
  \<comment> \<open>\<open>s.includes(p)\<close>, written \<open>includesStr p s\<close>\<close>
  "includesStr p [] = (p = [])"
| "includesStr p (c # cs) = (startsWith p (c # cs) \<or> includesStr p cs)"

fun indexOfFrom :: "nat \<Rightarrow> string \<Rightarrow> string \<Rightarrow> nat option" where
  "indexOfFrom i p [] = (if p = [] then Some i else None)"
| "indexOfFrom i p (c # cs) =
     (if startsWith p (c # cs) then Some i else indexOfFrom (Suc i) p cs)"

definition indexOf :: "string \<Rightarrow> string \<Rightarrow> nat option" where
  \<comment> \<open>\<open>s.indexOf(p)\<close>; \<open>None\<close> is the source's \<open>-1\<close>\<close>
  "indexOf p s = indexOfFrom 0 p s"

fun lastIndexOfFrom :: "nat \<Rightarrow> string \<Rightarrow> string \<Rightarrow> nat option" where
  "lastIndexOfFrom i p [] = (if p = [] then Some i else None)"
| "lastIndexOfFrom i p (c # cs) =
     (case lastIndexOfFrom (Suc i) p cs of
        Some j \<Rightarrow> Some j
      | None \<Rightarrow> (if startsWith p (c # cs) then Some i else None))"

definition lastIndexOf :: "string \<Rightarrow> string \<Rightarrow> nat option" where
  \<comment> \<open>\<open>s.lastIndexOf(p)\<close>; \<open>None\<close> is the source's \<open>-1\<close>\<close>
  "lastIndexOf p s = lastIndexOfFrom 0 p s"

definition endsWith :: "string \<Rightarrow> string \<Rightarrow> bool" where
  "endsWith p s = startsWith (rev p) (rev s)"

text \<open>
  A value read from a JSON file or passed in the options object. Numbers only matter here
  as values that are neither strings nor booleans. An object is the list of its entries in
  the order \<open>Object.entries\<close> returns them.
\<close>

datatype json =
    JNull
  | JBool bool
  | JNum int
  | JStr string
  | JArr "json list"
  | JObj "(string \<times> json) list"

section \<open>Configuration of the migration set\<close>

definition MIGRATION_IDS :: "string list" where
  "MIGRATION_IDS =
     [''next-image'', ''next-link'', ''next-server-functions'', ''manual-migration-todos'',
      ''next-use-client'', ''route-file-structure'', ''route-groups'', ''api-routes'']"

text \<open>
  The project configuration is whatever object \<open>JSON.parse\<close> returned: each key is absent
  or holds any JSON value. The fields carry the prefix \<open>pc_\<close> to keep them apart from the
  fields of the resolved configuration.
\<close>

record CodemodProjectConfig =
  pc_routesDirectory :: "json option"
  pc_appDirectory :: "json option"
  pc_enabledMigrations :: "json option"
  pc_disabledMigrations :: "json option"
  pc_migrations :: "json option"

record ResolvedRuntimeConfig =
  routesDirectory :: string
  appDirectory :: string
  enabledMigrations :: "string set"

definition emptyConfig :: CodemodProjectConfig where
  "emptyConfig = \<lparr>pc_routesDirectory = None, pc_appDirectory = None, pc_enabledMigrations = None,
                   pc_disabledMigrations = None, pc_migrations = None\<rparr>"

definition normalizeMigrationId :: "string \<Rightarrow> string option" where
  "normalizeMigrationId v = (if v \<in> set MIGRATION_IDS then Some v else None)"

definition addRaw :: "json \<Rightarrow> string set \<Rightarrow> string set" where
  \<comment> \<open>one turn of the loop over \<open>config.enabledMigrations\<close>\<close>
  "addRaw raw enabled =
     (case raw of
        JStr s \<Rightarrow> (case normalizeMigrationId s of Some i \<Rightarrow> insert i enabled | None \<Rightarrow> enabled)
      | _ \<Rightarrow> enabled)"

definition deleteRaw :: "json \<Rightarrow> string set \<Rightarrow> string set" where
  \<comment> \<open>one turn of the loop over \<open>config.disabledMigrations\<close>\<close>
  "deleteRaw raw enabled =
     (case raw of
        JStr s \<Rightarrow> (case normalizeMigrationId s of Some i \<Rightarrow> enabled - {i} | None \<Rightarrow> enabled)
      | _ \<Rightarrow> enabled)"

definition applyEntry :: "string \<times> json \<Rightarrow> string set \<Rightarrow> string set" where
  \<comment> \<open>one turn of the loop over \<open>Object.entries(config.migrations)\<close>\<close>
  "applyEntry kv enabled =
     (case normalizeMigrationId (fst kv) of
        None \<Rightarrow> enabled
      | Some i \<Rightarrow>
          (case snd kv of
             JBool b \<Rightarrow> (if b then insert i enabled else enabled - {i})
           | _ \<Rightarrow> enabled))"

definition resolveEnabledMigrations :: "CodemodProjectConfig \<Rightarrow> string set" where
  "resolveEnabledMigrations config =
     (let enabled0 = set MIGRATION_IDS;
          enabled1 = (case pc_enabledMigrations config of
                        Some (JArr raws) \<Rightarrow>
                          (if length raws > 0 then fold addRaw raws {} else enabled0)
                      | _ \<Rightarrow> enabled0);
          enabled2 = (case pc_disabledMigrations config of
                        Some (JArr raws) \<Rightarrow> fold deleteRaw raws enabled1
                      | _ \<Rightarrow> enabled1);
          enabled3 = (case pc_migrations config of
                        Some (JObj entries) \<Rightarrow> fold applyEntry entries enabled2
                      | _ \<Rightarrow> enabled2)
      in enabled3)"

text \<open>
  The three layers in the words of the specification. \<open>claimedAllowList\<close> reads
  "the allow-list given by enabledMigrations, defaulting to all known pass ids when absent";
  \<open>allowList\<close> is what the source does, which also takes the default for an empty list.
\<close>

definition knownStrings :: "json list \<Rightarrow> string set" where
  "knownStrings raws = {i \<in> set MIGRATION_IDS. JStr i \<in> set raws}"

definition claimedAllowList :: "CodemodProjectConfig \<Rightarrow> string set" where
  "claimedAllowList config =
     (case pc_enabledMigrations config of
        Some (JArr raws) \<Rightarrow> knownStrings raws
      | _ \<Rightarrow> set MIGRATION_IDS)"

definition allowList :: "CodemodProjectConfig \<Rightarrow> string set" where
  "allowList config =
     (case pc_enabledMigrations config of
        Some (JArr raws) \<Rightarrow> (if raws = [] then set MIGRATION_IDS else knownStrings raws)
      | _ \<Rightarrow> set MIGRATION_IDS)"

definition denyList :: "CodemodProjectConfig \<Rightarrow> string set" where
  "denyList config =
     (case pc_disabledMigrations config of
        Some (JArr raws) \<Rightarrow> knownStrings raws
      | _ \<Rightarrow> {})"

fun boolOverride :: "(string \<times> json) list \<Rightarrow> string \<Rightarrow> bool option" where
  \<comment> \<open>the boolean the map gives an id: its last boolean entry, when the list repeats a key\<close>
  "boolOverride [] i = None"
| "boolOverride ((k, v) # kvs) i =
     (case boolOverride kvs i of
        Some b \<Rightarrow> Some b
      | None \<Rightarrow> (case v of JBool b \<Rightarrow> (if k = i then Some b else None) | _ \<Rightarrow> None))"

definition overrideMap :: "CodemodProjectConfig \<Rightarrow> string \<Rightarrow> bool option" where
  "overrideMap config i =
     (case pc_migrations config of
        Some (JObj entries) \<Rightarrow> boolOverride entries i
      | _ \<Rightarrow> None)"

definition layered :: "string set \<Rightarrow> CodemodProjectConfig \<Rightarrow> string set" where
  \<comment> \<open>allow-list, minus the deny-list, then the per-id map: true adds, false removes\<close>
  "layered allow config =
     {i \<in> set MIGRATION_IDS.
        (case overrideMap config i of
           Some b \<Rightarrow> b
         | None \<Rightarrow> i \<in> allow \<and> i \<notin> denyList config)}"

section \<open>Route path derivation\<close>

definition backslash :: char where
  "backslash = CHR 0x5C"

definition isSlash :: "char \<Rightarrow> bool" where
  \<comment> \<open>the character class \<open>[/\\]\<close>\<close>
  "isSlash c = (c = CHR ''/'' \<or> c = backslash)"

definition normalizePath :: "string \<Rightarrow> string" where
  "normalizePath v = map (\<lambda>c. if c = backslash then CHR ''/'' else c) v"

definition normalizeDirSegments :: "string \<Rightarrow> string list" where
  "normalizeDirSegments v = filterBoolean (splitOn (\<lambda>c. c = CHR ''/'') (normalizePath v))"

definition findSubPathIndex :: "string list \<Rightarrow> string list \<Rightarrow> nat option" where
  \<comment> \<open>the first \<open>i\<close> with \<open>haystack[i + j] = needle[j]\<close> for every \<open>j\<close>; \<open>None\<close> is \<open>-1\<close>\<close>
  "findSubPathIndex haystack needle =
     (if length needle = 0 \<or> length needle > length haystack then None
      else List.find (\<lambda>i. take (length needle) (drop i haystack) = needle)
             [0 ..< Suc (length haystack - length needle)])"

definition scriptExts :: "string list" where
  "scriptExts = [''tsx'', ''jsx'', ''ts'', ''js'']"

definition hasScriptExt :: "string \<Rightarrow> bool" where
  \<comment> \<open>\<open>/\.(tsx|jsx|ts|js)$/.test(s)\<close>\<close>
  "hasScriptExt s = (\<exists>e \<in> set scriptExts. endsWith (CHR ''.'' # e) s)"

definition isRouteFile :: "string list \<Rightarrow> string \<Rightarrow> bool" where
  \<comment> \<open>\<open>/^(n1|n2|...)\.(tsx|jsx|ts|js)$/.test(base)\<close>\<close>
  "isRouteFile names base = (base \<in> set (concat (map (\<lambda>n. map (\<lambda>e. n @ CHR ''.'' # e) scriptExts) names)))"

definition matchDelimited :: "string \<Rightarrow> char \<Rightarrow> string \<Rightarrow> string \<Rightarrow> string option" where
  \<comment> \<open>the anchored expression \<open>^pre([^c]+)post$\<close>, where \<open>post\<close> begins with \<open>c\<close>: the
      capture is the longest run without \<open>c\<close> after \<open>pre\<close>, it is not empty, and what is left
      is exactly \<open>post\<close>\<close>
  "matchDelimited pre c post s =
     (if startsWith pre s then
        (let r = drop (length pre) s;
             mid = takeWhile (\<lambda>x. x \<noteq> c) r;
             rest = dropWhile (\<lambda>x. x \<noteq> c) r
         in if mid \<noteq> [] \<and> rest = post then Some mid else None)
      else None)"

definition isPrivateSegment :: "string \<Rightarrow> bool" where
  \<comment> \<open>\<open>/^_[^/\\]+$/\<close>\<close>
  "isPrivateSegment s =
     (case s of [] \<Rightarrow> False | c # r \<Rightarrow> c = CHR ''_'' \<and> r \<noteq> [] \<and> (\<forall>x \<in> set r. \<not> isSlash x))"

definition isParallelSegment :: "string \<Rightarrow> bool" where
  \<comment> \<open>\<open>/^@[^/\\]+$/\<close>\<close>
  "isParallelSegment s =
     (case s of [] \<Rightarrow> False | c # r \<Rightarrow> c = CHR ''@'' \<and> r \<noteq> [] \<and> (\<forall>x \<in> set r. \<not> isSlash x))"

definition isRouteGroupSegment :: "string \<Rightarrow> bool" where
  \<comment> \<open>\<open>/^\([^)]+\)$/\<close>\<close>
  "isRouteGroupSegment s = (matchDelimited ''('' (CHR '')'') '')'' s \<noteq> None)"

definition mapRouteSegment :: "string \<Rightarrow> string" where
  "mapRouteSegment segment =
     (case matchDelimited ''('' (CHR '')'') '')'' segment of
        Some g \<Rightarrow> CHR ''_'' # g
      | None \<Rightarrow>
     (case matchDelimited ''[[...'' (CHR '']'') '']]'' segment of
        Some _ \<Rightarrow> ''$''
      | None \<Rightarrow>
     (case matchDelimited ''[...'' (CHR '']'') '']'' segment of
        Some _ \<Rightarrow> ''$''
      | None \<Rightarrow>
     (case matchDelimited ''['' (CHR '']'') '']'' segment of
        Some d \<Rightarrow> CHR ''$'' # d
      | None \<Rightarrow> segment))))"

definition replacePrefix :: "string \<Rightarrow> string \<Rightarrow> string \<Rightarrow> string" where
  \<comment> \<open>\<open>base.replace(/^old/, new)\<close> for a literal \<open>old\<close>\<close>
  "replacePrefix old new base =
     (if startsWith old base then new @ drop (length old) base else base)"

definition mapRouteFilename :: "string \<Rightarrow> bool \<Rightarrow> string option" where
  "mapRouteFilename base isRootLayout =
     (if isRouteFile [''page''] base then Some (replacePrefix ''page.'' ''index.'' base)
      else if isRouteFile [''layout''] base then
        Some (replacePrefix ''layout.'' (if isRootLayout then ''__root.'' else ''_layout.'') base)
      else if isRouteFile [''loading''] base then Some (replacePrefix ''loading.'' ''-pending.'' base)
      else if isRouteFile [''error''] base then Some (replacePrefix ''error.'' ''-error.'' base)
      else if isRouteFile [''not-found''] base then
        Some (replacePrefix ''not-found.'' ''-not-found.'' base)
      else if isRouteFile [''template''] base then
        Some (replacePrefix ''template.'' ''-template.'' base)
      else if isRouteFile [''default''] base then Some (replacePrefix ''default.'' ''-default.'' base)
      else if isRouteFile [''route''] base then Some base
      else None)"

definition relativeRouteSegments :: "string list \<Rightarrow> nat \<Rightarrow> string list" where
  \<comment> \<open>\<open>segments.slice(appEndIndex, -1)\<close>\<close>
  "relativeRouteSegments segments appEndIndex = drop appEndIndex (butlast segments)"

definition isExcludedBranch :: "string list \<Rightarrow> string \<Rightarrow> bool" where
  \<comment> \<open>the two early returns of \<open>computeTanstackTargetPath\<close> after the segment tests\<close>
  "isExcludedBranch rel fileBase =
     (let hasPrivateSegment = list_ex isPrivateSegment rel;
          hasParallelSegment = list_ex isParallelSegment rel;
          hasRouteGroupSegment = list_ex isRouteGroupSegment rel;
          isGroupOnlyBranch = (length rel > 0 \<and> list_all isRouteGroupSegment rel);
          isLayoutLikeFile = isRouteFile [''layout'', ''template''] fileBase
      in (hasPrivateSegment \<or> hasParallelSegment)
         \<or> (hasRouteGroupSegment \<and> isLayoutLikeFile \<and> \<not> isGroupOnlyBranch))"

definition computeTanstackTargetPath :: "string \<Rightarrow> ResolvedRuntimeConfig \<Rightarrow> string option" where
  "computeTanstackTargetPath filename runtimeConfig =
     (if \<not> hasScriptExt filename then None
      else if includesStr ''node_modules'' filename then None
      else
        (let sep = (if backslash \<in> set filename then [backslash] else ''/'');
             segments = splitOn isSlash filename
         in if length segments < 2 then None
            else
              (let appDirSegments = normalizeDirSegments (appDirectory runtimeConfig)
               in case findSubPathIndex segments appDirSegments of
                    None \<Rightarrow> None
                  | Some appIndex \<Rightarrow>
                      (let appEndIndex = appIndex + length appDirSegments
                       in if appEndIndex \<ge> length segments then None
                          else
                            (let fileBase = last segments
                             in if fileBase = [] then None
                                else
                                  (let rel = relativeRouteSegments segments appEndIndex
                                   in if isExcludedBranch rel fileBase then None
                                      else
                                        (let isRootLayout =
                                               (length rel = 0 \<and> isRouteFile [''layout''] fileBase)
                                         in case mapRouteFilename fileBase isRootLayout of
                                              None \<Rightarrow> None
                                            | Some mappedBase \<Rightarrow>
                                                (let routesDirSegments =
                                                       filterBoolean
                                                         (splitOn isSlash (routesDirectory runtimeConfig))
                                                 in if length routesDirSegments = 0 then None
                                                    else
                                                      (let mappedDirs = map mapRouteSegment rel;
                                                           targetSegments =
                                                             take appIndex segments @ routesDirSegments
                                                               @ mappedDirs @ [mappedBase];
                                                           targetPath = joinWith sep targetSegments
                                                       in if normalizePath targetPath = normalizePath filename
                                                          then None
                                                          else Some targetPath)))))))))"

definition defaultRuntimeConfig :: ResolvedRuntimeConfig where
  \<comment> \<open>what \<open>resolveRuntimeConfig\<close> returns when nothing is configured\<close>
  "defaultRuntimeConfig =
     \<lparr>routesDirectory = ''routes'', appDirectory = ''app'', enabledMigrations = set MIGRATION_IDS\<rparr>"

text \<open>
  The directory segments between the app directory and the file name, and the file name,
  as \<open>computeTanstackTargetPath\<close> finds them.
\<close>

definition routeDirectorySegments :: "string \<Rightarrow> ResolvedRuntimeConfig \<Rightarrow> string list option" where
  "routeDirectorySegments filename runtimeConfig =
     (let segments = splitOn isSlash filename;
          appDirSegments = normalizeDirSegments (appDirectory runtimeConfig)
      in case findSubPathIndex segments appDirSegments of
           None \<Rightarrow> None
         | Some appIndex \<Rightarrow> Some (relativeRouteSegments segments (appIndex + length appDirSegments)))"

definition fileBaseOf :: "string \<Rightarrow> string" where
  "fileBaseOf filename = last (splitOn isSlash filename)"

section \<open>Regular expressions of the route path functions\<close>

text \<open>
  Each regular expression of the source is written as a matcher: a function that tries the
  expression at the start of a string. \<open>firstMatch\<close> is the search from left to right
  (\<open>test\<close>, \<open>match\<close>, \<open>search\<close>); \<open>replaceAllBy\<close> is \<open>replace\<close> with the flag \<open>g\<close>, for a
  matcher that returns the replacement and the length of the match, which is never zero
  for the expressions used here.
\<close>

fun firstMatch :: "(string \<Rightarrow> 'a option) \<Rightarrow> string \<Rightarrow> 'a option" where
  "firstMatch m [] = m []"
| "firstMatch m (x # xs) = (case m (x # xs) of Some r \<Rightarrow> Some r | None \<Rightarrow> firstMatch m xs)"

fun replaceAllBy :: "(string \<Rightarrow> (string \<times> nat) option) \<Rightarrow> string \<Rightarrow> string" where
  "replaceAllBy m [] = []"
| "replaceAllBy m (x # xs) =
     (case m (x # xs) of
        Some (rep, n) \<Rightarrow> rep @ replaceAllBy m (drop (n - 1) xs)
      | None \<Rightarrow> x # replaceAllBy m xs)"

definition matchDelimitedAt :: "string \<Rightarrow> char \<Rightarrow> string \<Rightarrow> string \<Rightarrow> (string \<times> nat) option" where
  \<comment> \<open>the expression \<open>pre([^c]+)post\<close> tried at the start of \<open>s\<close>, where \<open>post\<close> begins with
      \<open>c\<close>: the capture and the length of the match. The greedy class takes the longest run
      without \<open>c\<close>; a shorter run would be followed by a character that is not \<open>c\<close>.\<close>
  "matchDelimitedAt pre c post s =
     (if startsWith pre s then
        (let r = drop (length pre) s;
             mid = takeWhile (\<lambda>x. x \<noteq> c) r;
             rest = dropWhile (\<lambda>x. x \<noteq> c) r
         in if mid \<noteq> [] \<and> startsWith post rest
            then Some (mid, length pre + length mid + length post)
            else None)
      else None)"

definition replaceDelimited :: "string \<Rightarrow> char \<Rightarrow> string \<Rightarrow> (string \<Rightarrow> string) \<Rightarrow> string \<Rightarrow> string" where
  "replaceDelimited pre c post f s =
     replaceAllBy (\<lambda>t. map_option (\<lambda>(mid, n). (f mid, n)) (matchDelimitedAt pre c post t)) s"

definition convertRouteSyntax :: "string \<Rightarrow> string" where
  \<comment> \<open>the four replacements every route path function applies, in the source's order:
      \<open>(group)\<close> to \<open>_group\<close>, \<open>[[...x]]\<close> to \<open>$\<close>, \<open>[...x]\<close> to \<open>$\<close>, \<open>[x]\<close> to \<open>$x\<close>\<close>
  "convertRouteSyntax path =
     (let p1 = replaceDelimited ''('' (CHR '')'') '')'' (\<lambda>g. CHR ''_'' # g) path;
          p2 = replaceDelimited ''[[...'' (CHR '']'') '']]'' (\<lambda>_. ''$'') p1;
          p3 = replaceDelimited ''[...'' (CHR '']'') '']'' (\<lambda>_. ''$'') p2;
          p4 = replaceDelimited ''['' (CHR '']'') '']'' (\<lambda>d. CHR ''$'' # d) p3
      in p4)"

definition removeTrailingSlash :: "string \<Rightarrow> string" where
  \<comment> \<open>\<open>s.replace(/\/$/, "")\<close>: one slash at the end is removed\<close>
  "removeTrailingSlash s = (if s \<noteq> [] \<and> last s = CHR ''/'' then butlast s else s)"

definition finishRoutePath :: "string \<Rightarrow> string" where
  \<comment> \<open>the common end of the route path functions: leading slash, trailing slash, \<open>|| "/"\<close>\<close>
  "finishRoutePath path =
     (let p1 = (if \<not> startsWith ''/'' path then CHR ''/'' # path else path);
          p2 = removeTrailingSlash p1
      in if p2 = [] then ''/'' else p2)"

definition computeExpectedRoutePathFromSourcePath ::
    "string \<Rightarrow> ResolvedRuntimeConfig \<Rightarrow> string option" where
  "computeExpectedRoutePathFromSourcePath filename runtimeConfig =
     (let normalized = normalizePath filename;
          segments = filterBoolean (splitOn (\<lambda>c. c = CHR ''/'') normalized);
          appDirSegments = normalizeDirSegments (appDirectory runtimeConfig)
      in case findSubPathIndex segments appDirSegments of
           None \<Rightarrow> None
         | Some appIndex \<Rightarrow>
             (let appEndIndex = appIndex + length appDirSegments;
                  relativeSegments = drop appEndIndex segments
              in if length relativeSegments = 0 then None
                 else if hd relativeSegments = ''api'' then None
                 else
                   (let withoutFilename = butlast relativeSegments;
                        filenamePart = last relativeSegments;
                        strippedFilename =
                          (if isRouteFile [''page'', ''layout'', ''loading'', ''error'',
                                           ''not-found'', ''template'', ''route''] filenamePart
                           then [] else filenamePart);
                        routePath0 = removeTrailingSlash
                          (joinWith ''/'' (filterBoolean (withoutFilename @ [strippedFilename])));
                        routePath1 = convertRouteSyntax routePath0
                    in Some (finishRoutePath routePath1))))"

definition isAsciiLetter :: "char \<Rightarrow> bool" where
  \<comment> \<open>the character class \<open>[A-Za-z]\<close>, by code unit\<close>
  "isAsciiLetter c =
     (let n = (of_char c :: nat) in (65 \<le> n \<and> n \<le> 90) \<or> (97 \<le> n \<and> n \<le> 122))"

definition stripDrivePrefix :: "string \<Rightarrow> string" where
  \<comment> \<open>\<open>path.replace(/^[A-Za-z]:/, "")\<close>\<close>
  "stripDrivePrefix path =
     (case path of
        a # b # r \<Rightarrow> (if isAsciiLetter a \<and> b = CHR '':'' then r else path)
      | _ \<Rightarrow> path)"

definition matchAppTail :: "string \<Rightarrow> nat option" where
  \<comment> \<open>\<open>(?:src\/)?app\/\<close> at the start of the string: the length of the match\<close>
  "matchAppTail t =
     (if startsWith ''src/app/'' t then Some 8
      else if startsWith ''app/'' t then Some 4
      else None)"

definition matchAppAt :: "bool \<Rightarrow> string \<Rightarrow> nat option" where
  \<comment> \<open>\<open>(?:^|\/)(?:src\/)?app\/\<close> at the start of \<open>s\<close>, which is the start of the whole path
      when \<open>atStart\<close> holds: the length of the match\<close>
  "matchAppAt atStart s =
     (case (if atStart then matchAppTail s else None) of
        Some n \<Rightarrow> Some n
      | None \<Rightarrow>
          (case s of
             [] \<Rightarrow> None
           | c # t \<Rightarrow> (if c = CHR ''/'' then map_option Suc (matchAppTail t) else None)))"

fun afterAppMatch :: "bool \<Rightarrow> string \<Rightarrow> string option" where
  \<comment> \<open>\<open>path.slice(appIndex + appMatch[0].length)\<close> for the first match, if there is one\<close>
  "afterAppMatch atStart [] = map_option (\<lambda>n. drop n []) (matchAppAt atStart [])"
| "afterAppMatch atStart (c # cs) =
     (case matchAppAt atStart (c # cs) of
        Some n \<Rightarrow> Some (drop n (c # cs))
      | None \<Rightarrow> afterAppMatch False cs)"

definition stripRouteSuffix :: "string \<Rightarrow> string" where
  \<comment> \<open>\<open>path.replace(/route\.(ts|js|tsx|jsx)$/, "")\<close>: the leftmost match is the longest suffix\<close>
  "stripRouteSuffix path =
     (case List.find (\<lambda>e. endsWith (''route.'' @ e) path) [''tsx'', ''jsx'', ''ts'', ''js''] of
        Some e \<Rightarrow> take (length path - length (''route.'' @ e)) path
      | None \<Rightarrow> path)"

definition calculateRoutePath :: "string \<Rightarrow> string" where
  \<comment> \<open>\<open>calculateRoutePath\<close> of \<open>api-routes.ts\<close>\<close>
  "calculateRoutePath filename =
     (let path0 = stripDrivePrefix (normalizePath filename);
          path1 = (case afterAppMatch True path0 of
                     Some r \<Rightarrow> r
                   | None \<Rightarrow>
                       (case indexOf ''/api/'' path0 of
                          Some apiIndex \<Rightarrow> drop (apiIndex + 1) path0
                        | None \<Rightarrow> path0));
          path2 = stripRouteSuffix path1;
          path3 = convertRouteSyntax path2
      in finishRoutePath path3)"

section \<open>The route path of the file-structure pass\<close>

definition isLineTerminator :: "char \<Rightarrow> bool" where
  \<comment> \<open>the characters the regular expression \<open>.\<close> does not match, below 256\<close>
  "isLineTerminator c = (c = CHR 0x0A \<or> c = CHR 0x0D)"

definition specialFileSuffixes :: "string list" where
  \<comment> \<open>the strings \<open>(page|layout|loading|error|not-found|template|route)\.(tsx|jsx|ts|js)\<close>;
      no one of them is a suffix of another\<close>
  "specialFileSuffixes =
     concat (map (\<lambda>n. map (\<lambda>e. n @ CHR ''.'' # e) scriptExts)
               [''page'', ''layout'', ''loading'', ''error'', ''not-found'', ''template'', ''route''])"

definition stripSpecialFile :: "string \<Rightarrow> string" where
  \<comment> \<open>\<open>s.replace(/(page|layout|...|route)\.(tsx|jsx|ts|js)$/, "")\<close>\<close>
  "stripSpecialFile s =
     (case List.find (\<lambda>sfx. endsWith sfx s) specialFileSuffixes of
        Some sfx \<Rightarrow> take (length s - length sfx) s
      | None \<Rightarrow> s)"

definition matchAppRestAt :: "string \<Rightarrow> string option" where
  \<comment> \<open>\<open>[\\/]app[\\/](.+)\<close> at the start of the string: the group, the longest run of
      characters that are not line terminators\<close>
  "matchAppRestAt s =
     (case s of
        [] \<Rightarrow> None
      | c # r \<Rightarrow>
          (if isSlash c \<and> startsWith ''app'' r then
             (case drop (length ''app'') r of
                [] \<Rightarrow> None
              | d # rest \<Rightarrow>
                  (if isSlash d \<and> takeWhile (\<lambda>x. \<not> isLineTerminator x) rest \<noteq> []
                   then Some (takeWhile (\<lambda>x. \<not> isLineTerminator x) rest)
                   else None))
           else None))"

definition matchAppDirTail :: "string \<Rightarrow> nat option" where
  \<comment> \<open>\<open>[\\/](src[\\/])?app[\\/]?\<close> at the start of the string: the length of the match\<close>
  "matchAppDirTail t =
     (case t of
        [] \<Rightarrow> None
      | c # r \<Rightarrow>
          (if isSlash c then
             (let r' = (if startsWith ''src'' r
                           \<and> (case drop 3 r of [] \<Rightarrow> False | d # _ \<Rightarrow> isSlash d)
                        then Some (drop 4 r) else None);
                  optSlash = (\<lambda>u. case u of [] \<Rightarrow> 0 | d # _ \<Rightarrow> (if isSlash d then 1 else (0::nat)))
              in case r' of
                   Some u \<Rightarrow>
                     (if startsWith ''app'' u then Some (1 + 4 + 3 + optSlash (drop 3 u))
                      else if startsWith ''app'' r then Some (1 + 3 + optSlash (drop 3 r))
                      else None)
                 | None \<Rightarrow>
                     (if startsWith ''app'' r then Some (1 + 3 + optSlash (drop 3 r)) else None))
           else None))"

fun matchAnyThenAppDir :: "string \<Rightarrow> nat option" where
  \<comment> \<open>\<open>.*[\\/](src[\\/])?app[\\/]?\<close> at the start of the string: the greedy \<open>.*\<close> gives
      way one character at a time, so the last place where the rest matches wins\<close>
  "matchAnyThenAppDir [] = matchAppDirTail []"
| "matchAnyThenAppDir (x # xs) =
     (case (if isLineTerminator x then None else map_option Suc (matchAnyThenAppDir xs)) of
        Some n \<Rightarrow> Some n
      | None \<Rightarrow> matchAppDirTail (x # xs))"

fun removeFirstBy :: "(string \<Rightarrow> nat option) \<Rightarrow> string \<Rightarrow> string" where
  \<comment> \<open>\<open>s.replace(re, "")\<close> without the flag \<open>g\<close>, for a matcher that returns the length\<close>
  "removeFirstBy m [] = []"
| "removeFirstBy m (x # xs) =
     (case m (x # xs) of
        Some n \<Rightarrow> drop n (x # xs)
      | None \<Rightarrow> x # removeFirstBy m xs)"

definition calculateTanstackRoute :: "string \<Rightarrow> string" where
  \<comment> \<open>\<open>calculateTanstackRoute\<close> of the file-structure pass\<close>
  "calculateTanstackRoute filename =
     (let normalizedFilename = normalizePath filename;
          path0 = removeTrailingSlash (stripSpecialFile normalizedFilename);
          path1 = (case firstMatch matchAppRestAt path0 of
                     Some rest \<Rightarrow> rest
                   | None \<Rightarrow> removeFirstBy matchAnyThenAppDir path0);
          path2 = convertRouteSyntax path1
      in finishRoutePath path2)"

section \<open>Invariant check of the embedded route path\<close>

datatype error =
    RootRouteMismatch string string
      \<comment> \<open>"Root route mismatch for moved file.", with the source and the target path\<close>
  | RoutePathMismatch string string string
      \<comment> \<open>"Route path mismatch for moved file.", with the source, the expected and the actual path\<close>
  | OverwriteRefused string
      \<comment> \<open>"Refusing to overwrite existing target file with different content", with the path\<close>
  | FsFailure string
      \<comment> \<open>a rejected call of \<open>fs/promises\<close>, with the path it was given\<close>
  | PassFailure string
      \<comment> \<open>an error raised by a transform pass, with its message\<close>
  | TypeError string
      \<comment> \<open>a \<open>TypeError\<close> of the language itself, with its message\<close>

definition isRootRouteTarget :: "string \<Rightarrow> bool" where
  \<comment> \<open>\<open>/\/__root\.(tsx|jsx|ts|js)$/.test(normalizePath(path))\<close>\<close>
  "isRootRouteTarget path = (\<exists>e \<in> set scriptExts. endsWith (''/__root.'' @ e) (normalizePath path))"

definition matchRootCallAt :: "string \<Rightarrow> unit option" where
  \<comment> \<open>\<open>createRootRoute\s*\(\<close> at the start of the string\<close>
  "matchRootCallAt s =
     (if startsWith ''createRootRoute'' s then
        (case dropWhile isSpace (drop (length ''createRootRoute'') s) of
           [] \<Rightarrow> None
         | c # _ \<Rightarrow> (if c = CHR ''('' then Some () else None))
      else None)"

definition hasCreateRootRouteCall :: "string \<Rightarrow> bool" where
  \<comment> \<open>\<open>/createRootRoute\s*\(/.test(source)\<close>\<close>
  "hasCreateRootRouteCall source = (firstMatch matchRootCallAt source \<noteq> None)"

definition isQuote3 :: "char \<Rightarrow> bool" where
  \<comment> \<open>the character class of the three quotes: single, double and backtick\<close>
  "isQuote3 c = (c = CHR 0x27 \<or> c = CHR 0x22 \<or> c = CHR 0x60)"

definition matchFileRouteAt :: "string \<Rightarrow> string option" where
  \<comment> \<open>\<open>createFileRoute\((['"`])([^'"`]+)\1\)\<close> at the start of the string: the second group.
      The class takes the longest run without a quote, and the same quote must close it.\<close>
  "matchFileRouteAt s =
     (if startsWith ''createFileRoute('' s then
        (case drop (length ''createFileRoute('') s of
           [] \<Rightarrow> None
         | q # r \<Rightarrow>
             (if isQuote3 q then
                (let mid = takeWhile (\<lambda>x. \<not> isQuote3 x) r;
                     rest = dropWhile (\<lambda>x. \<not> isQuote3 x) r
                 in if mid \<noteq> [] \<and> startsWith [q, CHR '')''] rest then Some mid else None)
              else None))
      else None)"

definition findCreateFileRoutePath :: "string \<Rightarrow> string option" where
  \<comment> \<open>\<open>source.match(...)?.[2]\<close>: the path of the first \<open>createFileRoute\<close> call with a literal\<close>
  "findCreateFileRoutePath source = firstMatch matchFileRouteAt source"

definition assertCreateFileRoutePathMatch ::
    "string \<Rightarrow> string \<Rightarrow> string \<Rightarrow> ResolvedRuntimeConfig \<Rightarrow> error + unit" where
  "assertCreateFileRoutePathMatch oldPath newPath source runtimeConfig =
     (if isRootRouteTarget newPath then
        (if \<not> hasCreateRootRouteCall source then Inl (RootRouteMismatch oldPath newPath)
         else Inr ())
      else
        (case computeExpectedRoutePathFromSourcePath oldPath runtimeConfig of
           None \<Rightarrow> Inr ()
         | Some expected \<Rightarrow>
             (if hasCreateRootRouteCall source then Inr ()
              else
                (case findCreateFileRoutePath source of
                   None \<Rightarrow> Inr ()
                 | Some actual \<Rightarrow>
                     (if actual \<noteq> expected then Inl (RoutePathMismatch oldPath expected actual)
                      else Inr ())))))"

definition matchRootFactoryAt :: "string \<Rightarrow> (string \<times> nat) option" where
  \<comment> \<open>\<open>createFileRoute\(\s*(['"`])\/\1\s*\)\s*\(\<close> at the start of the string, replaced by
      \<open>createRootRoute(\<close>\<close>
  "matchRootFactoryAt s =
     (if startsWith ''createFileRoute('' s then
        (let r1 = dropWhile isSpace (drop (length ''createFileRoute('') s)
         in case r1 of
              q # sl # q' # r2 \<Rightarrow>
                (if isQuote3 q \<and> sl = CHR ''/'' \<and> q' = q then
                   (case dropWhile isSpace r2 of
                      [] \<Rightarrow> None
                    | c # r3 \<Rightarrow>
                        (if c = CHR '')'' then
                           (case dropWhile isSpace r3 of
                              [] \<Rightarrow> None
                            | d # r4 \<Rightarrow>
                                (if d = CHR ''('' then Some (''createRootRoute('', length s - length r4)
                                 else None))
                         else None))
                 else None)
            | _ \<Rightarrow> None)
      else None)"

definition rewriteImportList :: "string \<Rightarrow> string list" where
  \<comment> \<open>the callback of the import replacement: the names without \<open>createFileRoute\<close>, with
      \<open>createRootRoute\<close> put first unless it is there already\<close>
  "rewriteImportList imports =
     (let parts = filterBoolean (map trim (splitOn (\<lambda>c. c = CHR '','') imports));
          withoutCreateFileRoute = filter (\<lambda>part. part \<noteq> ''createFileRoute'') parts
      in if ''createRootRoute'' \<in> set withoutCreateFileRoute then withoutCreateFileRoute
         else ''createRootRoute'' # withoutCreateFileRoute)"

definition matchTanstackImportAt :: "string \<Rightarrow> (string \<times> nat) option" where
  \<comment> \<open>\<open>import\s*{\s*([^}]+)\s*}\s*from\s*(['"])@tanstack\/react-router\2\<close> at the start of
      the string. The first group is the run up to the closing brace without its leading white
      space, or its last character when the run is white space only.\<close>
  "matchTanstackImportAt s =
     (if startsWith ''import'' s then
        (case dropWhile isSpace (drop (length ''import'') s) of
           [] \<Rightarrow> None
         | b # r1 \<Rightarrow>
             (if b = CHR ''{'' then
                (let run = takeWhile (\<lambda>x. x \<noteq> CHR ''}'') r1;
                     r2 = dropWhile (\<lambda>x. x \<noteq> CHR ''}'') r1;
                     lead = takeWhile isSpace run;
                     imports = (if length lead < length run then drop (length lead) run
                                else [last run])
                 in if run = [] \<or> r2 = [] then None
                    else
                      (let r3 = dropWhile isSpace (tl r2)
                       in if startsWith ''from'' r3 then
                            (case dropWhile isSpace (drop (length ''from'') r3) of
                               [] \<Rightarrow> None
                             | q # r4 \<Rightarrow>
                                 (if (q = CHR 0x27 \<or> q = CHR 0x22)
                                     \<and> startsWith (''@tanstack/react-router'' @ [q]) r4
                                  then Some (''import { '' @ joinWith '', '' (rewriteImportList imports)
                                               @ '' } from '' @ [q] @ ''@tanstack/react-router'' @ [q],
                                             length s - length r4
                                               + length (''@tanstack/react-router'' @ [q]))
                                  else None))
                          else None))
              else None))
      else None)"

definition normalizeRootRouteSource :: "string \<Rightarrow> string" where
  "normalizeRootRouteSource source =
     replaceAllBy matchTanstackImportAt (replaceAllBy matchRootFactoryAt source)"

section \<open>The process and the file system\<close>

text \<open>
  The file system the \<open>fs/promises\<close> calls act on. A path is resolved to its list of names:
  it is split at \<open>/\<close>, empty names and \<open>.\<close> are dropped, and a relative path starts at the
  working directory. The root directory always exists. Every call is modelled with the
  result \<open>None\<close> when the promise is rejected. The runtime may lack \<open>readFile\<close>, \<open>unlink\<close> or
  \<open>rm\<close>; the source tests for each of them. \<open>rm\<close> without \<open>recursive\<close> removes a file or an
  empty directory. Console output is not modelled.
\<close>

record fsys =
  cwd :: "string list"
  fileTable :: "(string list \<times> string) list"
  dirTable :: "string list list"
  canReadFile :: bool
  canUnlink :: bool
  canRm :: bool

definition pathKey :: "fsys \<Rightarrow> string \<Rightarrow> string list" where
  "pathKey fs p =
     (let names = filter (\<lambda>s. s \<noteq> [] \<and> s \<noteq> ''.'') (splitOn (\<lambda>c. c = CHR ''/'') p)
      in if startsWith ''/'' p then names else cwd fs @ names)"

definition isFileKey :: "fsys \<Rightarrow> string list \<Rightarrow> bool" where
  "isFileKey fs k = (map_of (fileTable fs) k \<noteq> None)"

definition isDirKey :: "fsys \<Rightarrow> string list \<Rightarrow> bool" where
  "isDirKey fs k = (k = [] \<or> k \<in> set (dirTable fs))"

definition fsAccess :: "fsys \<Rightarrow> string \<Rightarrow> bool" where
  \<comment> \<open>\<open>fsp.access(path)\<close> is fulfilled\<close>
  "fsAccess fs p = (isFileKey fs (pathKey fs p) \<or> isDirKey fs (pathKey fs p))"

definition fsReadFile :: "fsys \<Rightarrow> string \<Rightarrow> string option" where
  \<comment> \<open>\<open>fsp.readFile(path, "utf8")\<close>\<close>
  "fsReadFile fs p = map_of (fileTable fs) (pathKey fs p)"

definition removeFileKey :: "fsys \<Rightarrow> string list \<Rightarrow> fsys" where
  "removeFileKey fs k = fs\<lparr>fileTable := filter (\<lambda>e. fst e \<noteq> k) (fileTable fs)\<rparr>"

definition fsUnlink :: "fsys \<Rightarrow> string \<Rightarrow> fsys option" where
  \<comment> \<open>\<open>fsp.unlink(path)\<close>\<close>
  "fsUnlink fs p =
     (if isFileKey fs (pathKey fs p) then Some (removeFileKey fs (pathKey fs p)) else None)"

definition childrenOf :: "fsys \<Rightarrow> string list \<Rightarrow> string list" where
  "childrenOf fs k =
     remdups (map last (filter (\<lambda>k'. k' \<noteq> [] \<and> butlast k' = k)
                          (map fst (fileTable fs) @ dirTable fs)))"

definition fsReaddir :: "fsys \<Rightarrow> string \<Rightarrow> string list option" where
  \<comment> \<open>\<open>fsp.readdir(path)\<close>\<close>
  "fsReaddir fs p =
     (if isDirKey fs (pathKey fs p) \<and> \<not> isFileKey fs (pathKey fs p)
      then Some (childrenOf fs (pathKey fs p)) else None)"

definition fsRm :: "fsys \<Rightarrow> string \<Rightarrow> fsys option" where
  \<comment> \<open>\<open>fsp.rm(path)\<close> and \<open>fsp.rm(path, { recursive: false, force: false })\<close>\<close>
  "fsRm fs p =
     (let k = pathKey fs p
      in if isFileKey fs k then Some (removeFileKey fs k)
         else if k \<in> set (dirTable fs) \<and> k \<noteq> [] \<and> childrenOf fs k = []
         then Some (fs\<lparr>dirTable := removeAll k (dirTable fs)\<rparr>)
         else None)"

definition properPrefixes :: "string list \<Rightarrow> string list list" where
  \<comment> \<open>the directory and its ancestors below the root, outermost first\<close>
  "properPrefixes k = map (\<lambda>n. take n k) [1 ..< Suc (length k)]"

definition fsMkdirRecursive :: "fsys \<Rightarrow> string \<Rightarrow> fsys option" where
  \<comment> \<open>\<open>fsp.mkdir(path, { recursive: true })\<close>\<close>
  "fsMkdirRecursive fs p =
     (let ks = properPrefixes (pathKey fs p)
      in if list_ex (isFileKey fs) ks then None
         else Some (fs\<lparr>dirTable := dirTable fs @ filter (\<lambda>k. k \<notin> set (dirTable fs)) ks\<rparr>))"

definition fsWriteFile :: "fsys \<Rightarrow> string \<Rightarrow> string \<Rightarrow> fsys option" where
  \<comment> \<open>\<open>fsp.writeFile(path, content, "utf8")\<close>\<close>
  "fsWriteFile fs p content =
     (let k = pathKey fs p
      in if isDirKey fs k \<or> \<not> isDirKey fs (butlast k) \<or> isFileKey fs (butlast k) then None
         else Some (fs\<lparr>fileTable := (k, content) # filter (\<lambda>e. fst e \<noteq> k) (fileTable fs)\<rparr>))"

record process =
  argv :: "string list"
  env :: "string \<Rightarrow> string option"

text \<open>
  The state one call of \<open>transform\<close> runs in: the process, the file system and the two caches
  of the module, each keyed by a directory.
\<close>

record world =
  proc :: process
  files :: fsys
  routesDirCache :: "string \<Rightarrow> string option"
  projectConfigCache :: "string \<Rightarrow> CodemodProjectConfig option"

definition isDryRun :: "process \<Rightarrow> bool" where
  "isDryRun p =
     (''--dry-run'' \<in> set (argv p) \<or> env p ''CODEMOD_DRY_RUN'' = Some ''1''
      \<or> env p ''DRY_RUN'' = Some ''1'')"

fun readCliOptionFrom :: "string \<Rightarrow> string \<Rightarrow> string list \<Rightarrow> string option" where
  "readCliOptionFrom exact withEq [] = None"
| "readCliOptionFrom exact withEq (arg # rest) =
     (if arg = [] then readCliOptionFrom exact withEq rest
      else if arg = exact then
        (case rest of
           [] \<Rightarrow> None
         | next # _ \<Rightarrow> (if next \<noteq> [] \<and> \<not> startsWith ''--'' next then Some next else None))
      else if startsWith withEq arg then Some (drop (length withEq) arg)
      else readCliOptionFrom exact withEq rest)"

definition readCliOption :: "process \<Rightarrow> string \<Rightarrow> string option" where
  "readCliOption p name = readCliOptionFrom (''--'' @ name) (''--'' @ name @ ''='') (argv p)"

definition normalizeRoutesDirectory :: "string \<Rightarrow> string" where
  \<comment> \<open>\<open>value.trim().replace(/^[./\\]+/, "").replace(/[\\/]+$/, "")\<close>\<close>
  "normalizeRoutesDirectory v =
     rev (dropWhile isSlash (rev (dropWhile (\<lambda>c. c = CHR ''.'' \<or> isSlash c) (trim v))))"

definition normalizeAppDirectory :: "string \<Rightarrow> string" where
  "normalizeAppDirectory v =
     rev (dropWhile isSlash (rev (dropWhile (\<lambda>c. c = CHR ''.'' \<or> isSlash c) (trim v))))"

definition truthy :: "string \<Rightarrow> string option" where
  \<comment> \<open>a string in a condition: the empty string is falsy\<close>
  "truthy s = (if s = [] then None else Some s)"

definition getRoutesDirectoryOverride :: "process \<Rightarrow> string option" where
  "getRoutesDirectoryOverride p =
     (case Option.bind (Option.bind (readCliOption p ''routes-directory'') truthy)
             (\<lambda>cliValue. truthy (normalizeRoutesDirectory cliValue)) of
        Some normalized \<Rightarrow> Some normalized
      | None \<Rightarrow>
          (let envValue = (case env p ''CODEMOD_ROUTES_DIRECTORY'' of
                             Some v \<Rightarrow> Some v
                           | None \<Rightarrow> env p ''ROUTES_DIRECTORY'')
           in Option.bind (Option.bind envValue truthy)
                (\<lambda>v. truthy (normalizeRoutesDirectory v))))"

definition jsonString :: "json option \<Rightarrow> string option" where
  \<comment> \<open>\<open>typeof v === "string"\<close>\<close>
  "jsonString v = (case v of Some (JStr s) \<Rightarrow> Some s | _ \<Rightarrow> None)"

fun firstNormalized :: "(string \<times> json) list \<Rightarrow> string list \<Rightarrow> string option" where
  \<comment> \<open>the loop over \<open>candidateKeys\<close>\<close>
  "firstNormalized params [] = None"
| "firstNormalized params (key # keys) =
     (case jsonString (map_of params key) of
        None \<Rightarrow> firstNormalized params keys
      | Some raw \<Rightarrow>
          (if normalizeRoutesDirectory raw \<noteq> [] then Some (normalizeRoutesDirectory raw)
           else firstNormalized params keys))"

definition getRoutesDirectoryOverrideFromOptions :: "json option \<Rightarrow> string option" where
  \<comment> \<open>\<open>options\<close> is \<open>None\<close> when the caller passes none\<close>
  "getRoutesDirectoryOverrideFromOptions options =
     (case options of
        Some (JObj entries) \<Rightarrow>
          (case map_of entries ''params'' of
             Some (JObj params) \<Rightarrow>
               firstNormalized params
                 [''routesDirectory'', ''routes_directory'', ''routes-dir'', ''routesDir'']
           | _ \<Rightarrow> None)
      | _ \<Rightarrow> None)"

definition trimTrailingSlash :: "string \<Rightarrow> string" where
  \<comment> \<open>\<open>value.replace(/\/+$/, "")\<close>\<close>
  "trimTrailingSlash v = rev (dropWhile (\<lambda>c. c = CHR ''/'') (rev v))"

definition dirname :: "string \<Rightarrow> string" where
  "dirname v =
     (let normalized = normalizePath v
      in case lastIndexOf ''/'' normalized of
           None \<Rightarrow> ''.''
         | Some idx \<Rightarrow> take idx normalized)"

definition existsFile :: "fsys \<Rightarrow> string \<Rightarrow> bool" where
  "existsFile fs path = fsAccess fs path"

definition readTextFile :: "fsys \<Rightarrow> string \<Rightarrow> string option" where
  "readTextFile fs path = (if canReadFile fs then fsReadFile fs path else None)"

section \<open>Configuration resolution\<close>

function findNearestFrom :: "fsys \<Rightarrow> string list \<Rightarrow> string \<Rightarrow> string option" where
  \<comment> \<open>the loop of \<open>findNearestFile\<close>, from the directory \<open>currentDir\<close> upward\<close>
  "findNearestFrom fs candidates currentDir =
     (case List.find (\<lambda>candidate. existsFile fs (trimTrailingSlash currentDir @ ''/'' @ candidate))
             candidates of
        Some candidate \<Rightarrow> Some (trimTrailingSlash currentDir @ ''/'' @ candidate)
      | None \<Rightarrow>
          (let parent = dirname currentDir
           in if parent = [] \<or> parent = ''.'' \<or> parent = currentDir then None
              else findNearestFrom fs candidates parent))"
  by pat_completeness auto
termination
proof (relation "measure (\<lambda>(fs, candidates, currentDir). length currentDir)")
  show "wf (measure (\<lambda>(fs, candidates, currentDir). length currentDir))"
    by simp
next
  fix fs :: fsys and candidates :: "string list" and currentDir parent :: string
  assume p: "parent = dirname currentDir" and nd: "\<not> (parent = [] \<or> parent = ''.'' \<or> parent = currentDir)"
  have bound: "lastIndexOfFrom i ''/'' s = Some j \<Longrightarrow> j < i + length s" for i j and s :: string
  proof (induction s arbitrary: i j)
    case Nil
    then show ?case by simp
  next
    case (Cons c cs)
    show ?case
    proof (cases "lastIndexOfFrom (Suc i) ''/'' cs")
      case None
      with Cons.prems show ?thesis by (simp split: if_splits)
    next
      case (Some k)
      with Cons.prems have "j = k" by simp
      with Cons.IH [OF Some] show ?thesis by simp
    qed
  qed
  obtain idx where idx: "lastIndexOf ''/'' (normalizePath currentDir) = Some idx"
    using p nd by (cases "lastIndexOf ''/'' (normalizePath currentDir)") (auto simp: dirname_def)
  have "idx < length (normalizePath currentDir)"
    using bound [of 0 "normalizePath currentDir" idx] idx by (simp add: lastIndexOf_def)
  moreover have "length (normalizePath currentDir) = length currentDir"
    by (simp add: normalizePath_def)
  moreover have "dirname currentDir = take idx (normalizePath currentDir)"
    unfolding dirname_def Let_def idx by simp
  ultimately have "length (dirname currentDir) < length currentDir"
    by simp
  then show "((fs, candidates, parent), (fs, candidates, currentDir))
               \<in> measure (\<lambda>(fs, candidates, currentDir). length currentDir)"
    by (simp add: p)
qed

declare findNearestFrom.simps [simp del]

definition findNearestFile :: "fsys \<Rightarrow> string \<Rightarrow> string list \<Rightarrow> string option" where
  "findNearestFile fs startDir candidates = findNearestFrom fs candidates (normalizePath startDir)"

definition matchViteRoutesDirectoryAt :: "string \<Rightarrow> string option" where
  \<comment> \<open>\<open>routesDirectory\s*:\s*['"`]([^'"`]+)['"`]\<close> at the start of the string: the group\<close>
  "matchViteRoutesDirectoryAt s =
     (if startsWith ''routesDirectory'' s then
        (case dropWhile isSpace (drop (length ''routesDirectory'') s) of
           [] \<Rightarrow> None
         | c # r1 \<Rightarrow>
             (if c = CHR '':'' then
                (case dropWhile isSpace r1 of
                   [] \<Rightarrow> None
                 | q # r2 \<Rightarrow>
                     (if isQuote3 q then
                        (let mid = takeWhile (\<lambda>x. \<not> isQuote3 x) r2;
                             rest = dropWhile (\<lambda>x. \<not> isQuote3 x) r2
                         in if mid \<noteq> [] \<and> rest \<noteq> [] then Some mid else None)
                      else None))
              else None))
      else None)"

definition parseRoutesDirectoryFromViteConfig :: "string \<Rightarrow> string option" where
  "parseRoutesDirectoryFromViteConfig source =
     Option.bind (firstMatch matchViteRoutesDirectoryAt source) (\<lambda>m. truthy (trim m))"

definition toProjectConfig :: "json \<Rightarrow> CodemodProjectConfig option" where
  \<comment> \<open>the value \<open>JSON.parse\<close> returned, read as a configuration when it is an object\<close>
  "toProjectConfig parsed =
     (case parsed of
        JObj entries \<Rightarrow>
          Some \<lparr>pc_routesDirectory = map_of entries ''routesDirectory'',
                 pc_appDirectory = map_of entries ''appDirectory'',
                 pc_enabledMigrations = map_of entries ''enabledMigrations'',
                 pc_disabledMigrations = map_of entries ''disabledMigrations'',
                 pc_migrations = map_of entries ''migrations''\<rparr>
      | JArr _ \<Rightarrow> Some emptyConfig
      | _ \<Rightarrow> None)"

definition parseProjectConfigJson ::
    "(string \<Rightarrow> json option) \<Rightarrow> string \<Rightarrow> CodemodProjectConfig option" where
  \<comment> \<open>\<open>jsonParse\<close> is \<open>JSON.parse\<close>, with \<open>None\<close> when it throws\<close>
  "parseProjectConfigJson jsonParse source = Option.bind (jsonParse source) toProjectConfig"

definition loadProjectConfig ::
    "(string \<Rightarrow> json option) \<Rightarrow> fsys \<Rightarrow> string \<Rightarrow> CodemodProjectConfig" where
  \<comment> \<open>the loader of \<open>readProjectConfig\<close>\<close>
  "loadProjectConfig jsonParse fs cacheKey =
     (case findNearestFile fs cacheKey
             [''next-to-start.codemod.json'', ''.next-to-start.codemod.json'',
              ''next-to-start.codemodrc.json''] of
        None \<Rightarrow> emptyConfig
      | Some configFile \<Rightarrow>
          (case Option.bind (readTextFile fs configFile) truthy of
             None \<Rightarrow> emptyConfig
           | Some source \<Rightarrow>
               (case parseProjectConfigJson jsonParse source of
                  None \<Rightarrow> emptyConfig
                | Some parsed \<Rightarrow> parsed)))"

definition readProjectConfig ::
    "(string \<Rightarrow> json option) \<Rightarrow> world \<Rightarrow> string \<Rightarrow> CodemodProjectConfig \<times> world" where
  "readProjectConfig jsonParse w filename =
     (let cacheKey = dirname (normalizePath filename)
      in case projectConfigCache w cacheKey of
           Some existing \<Rightarrow> (existing, w)
         | None \<Rightarrow>
             (let loaded = loadProjectConfig jsonParse (files w) cacheKey
              in (loaded, w\<lparr>projectConfigCache := (projectConfigCache w)(cacheKey \<mapsto> loaded)\<rparr>)))"

definition loadRoutesDirectory :: "fsys \<Rightarrow> string \<Rightarrow> string" where
  \<comment> \<open>the loader of \<open>getConfiguredRoutesDirectory\<close>: the scan of the build-tool configuration\<close>
  "loadRoutesDirectory fs projectRootGuess =
     (case findNearestFile fs projectRootGuess
             [''vite.config.ts'', ''vite.config.js'', ''vite.config.mts'', ''vite.config.cts'',
              ''vite.config.mjs'', ''vite.config.cjs''] of
        None \<Rightarrow> ''routes''
      | Some configFile \<Rightarrow>
          (case Option.bind (readTextFile fs configFile) truthy of
             None \<Rightarrow> ''routes''
           | Some source \<Rightarrow>
               normalizeRoutesDirectory
                 (case parseRoutesDirectoryFromViteConfig source of
                    Some v \<Rightarrow> v
                  | None \<Rightarrow> ''routes'')))"

definition getConfiguredRoutesDirectory ::
    "world \<Rightarrow> string \<Rightarrow> CodemodProjectConfig \<Rightarrow> string option \<Rightarrow> string \<times> world" where
  "getConfiguredRoutesDirectory w filename projectConfig override =
     (case Option.bind (jsonString (pc_routesDirectory projectConfig))
             (\<lambda>s. truthy (normalizeRoutesDirectory s)) of
        Some configOverride \<Rightarrow> (configOverride, w)
      | None \<Rightarrow>
          (case (case Option.bind override truthy of
                   Some v \<Rightarrow> Some v
                 | None \<Rightarrow> Option.bind (getRoutesDirectoryOverride (proc w)) truthy) of
             Some resolvedOverride \<Rightarrow> (normalizeRoutesDirectory resolvedOverride, w)
           | None \<Rightarrow>
               (let normalizedFilename = normalizePath filename;
                    appDir = (case Option.bind (jsonString (pc_appDirectory projectConfig))
                                     (\<lambda>s. truthy (normalizeAppDirectory s)) of
                                Some d \<Rightarrow> d
                              | None \<Rightarrow> ''app'')
                in case lastIndexOf (''/'' @ appDir @ ''/'') normalizedFilename of
                     None \<Rightarrow> (''routes'', w)
                   | Some appMarker \<Rightarrow>
                       (let projectRootGuess =
                              (case truthy (take appMarker normalizedFilename) of
                                 Some g \<Rightarrow> g
                               | None \<Rightarrow> ''.'');
                            cacheKey = normalizePath projectRootGuess
                        in case routesDirCache w cacheKey of
                             Some existing \<Rightarrow> (existing, w)
                           | None \<Rightarrow>
                               (let loaded = loadRoutesDirectory (files w) projectRootGuess
                                in (loaded,
                                    w\<lparr>routesDirCache := (routesDirCache w)(cacheKey \<mapsto> loaded)\<rparr>))))))"

definition resolveAppDirectory :: "json option \<Rightarrow> error + string" where
  \<comment> \<open>\<open>normalizeAppDirectory(projectConfig.appDirectory || "app") || "app"\<close>: a truthy value
      that is not a string has no \<open>trim\<close>, and the call throws\<close>
  "resolveAppDirectory v =
     (case v of
        None \<Rightarrow> Inr ''app''
      | Some JNull \<Rightarrow> Inr ''app''
      | Some (JBool b) \<Rightarrow> (if b then Inl (TypeError ''value.trim is not a function'') else Inr ''app'')
      | Some (JNum n) \<Rightarrow> (if n \<noteq> 0 then Inl (TypeError ''value.trim is not a function'') else Inr ''app'')
      | Some (JStr s) \<Rightarrow>
          (case truthy (normalizeAppDirectory (if s = [] then ''app'' else s)) of
             Some d \<Rightarrow> Inr d
           | None \<Rightarrow> Inr ''app'')
      | Some (JArr _) \<Rightarrow> Inl (TypeError ''value.trim is not a function'')
      | Some (JObj _) \<Rightarrow> Inl (TypeError ''value.trim is not a function''))"

definition resolveRuntimeConfig ::
    "(string \<Rightarrow> json option) \<Rightarrow> world \<Rightarrow> string \<Rightarrow> json option
       \<Rightarrow> (error + ResolvedRuntimeConfig) \<times> world" where
  "resolveRuntimeConfig jsonParse w filename options =
     (let (projectConfig, w1) = readProjectConfig jsonParse w filename;
          optionsOverride = getRoutesDirectoryOverrideFromOptions options;
          (routesDir, w2) = getConfiguredRoutesDirectory w1 filename projectConfig optionsOverride
      in case resolveAppDirectory (pc_appDirectory projectConfig) of
           Inl e \<Rightarrow> (Inl e, w2)
         | Inr appDir \<Rightarrow>
             (Inr \<lparr>routesDirectory = routesDir, appDirectory = appDir,
                    enabledMigrations = resolveEnabledMigrations projectConfig\<rparr>, w2))"

section \<open>Relocation of the rewritten file\<close>

definition tryDeleteFile :: "fsys \<Rightarrow> string \<Rightarrow> error + fsys" where
  "tryDeleteFile fs path =
     (if canUnlink fs then
        (case fsUnlink fs path of Some fs' \<Rightarrow> Inr fs' | None \<Rightarrow> Inl (FsFailure path))
      else if canRm fs then
        (case fsRm fs path of Some fs' \<Rightarrow> Inr fs' | None \<Rightarrow> Inl (FsFailure path))
      else Inr fs)"

definition tryDeleteDirIfEmpty :: "fsys \<Rightarrow> string \<Rightarrow> bool \<times> fsys" where
  \<comment> \<open>every rejection and every exception inside is caught and gives \<open>false\<close>\<close>
  "tryDeleteDirIfEmpty fs path =
     (case fsReaddir fs path of
        None \<Rightarrow> (False, fs)
      | Some entries \<Rightarrow>
          (if length entries > 0 then (False, fs)
           else if canRm fs then
             (case fsRm fs path of Some fs' \<Rightarrow> (True, fs') | None \<Rightarrow> (False, fs))
           else (False, fs)))"

function pruneLoop :: "string \<Rightarrow> string \<Rightarrow> fsys \<Rightarrow> fsys" where
  \<comment> \<open>the \<open>while\<close> loop of \<open>pruneEmptyRouteDirs\<close>\<close>
  "pruneLoop appPath currentDir fs =
     (if currentDir \<noteq> [] \<and> currentDir \<noteq> ''.'' \<and> currentDir \<noteq> appPath
         \<and> startsWith (appPath @ ''/'') currentDir
      then (if \<not> fst (tryDeleteDirIfEmpty fs currentDir) then snd (tryDeleteDirIfEmpty fs currentDir)
            else pruneLoop appPath (dirname currentDir) (snd (tryDeleteDirIfEmpty fs currentDir)))
      else fs)"
  by pat_completeness auto
termination
proof (relation "measure (\<lambda>(appPath, currentDir, fs). length currentDir)")
  show "wf (measure (\<lambda>(appPath, currentDir, fs). length currentDir))"
    by simp
next
  fix appPath currentDir :: string and fs :: fsys
  assume c: "currentDir \<noteq> [] \<and> currentDir \<noteq> ''.'' \<and> currentDir \<noteq> appPath
             \<and> startsWith (appPath @ ''/'') currentDir"
  have sub: "startsWith p s \<Longrightarrow> set p \<subseteq> set s" for p s :: string
    by (induction p s rule: startsWith.induct) auto
  have found: "c \<in> set s \<Longrightarrow> \<exists>j. lastIndexOfFrom i [c] s = Some j \<and> j < i + length s"
    for c i and s :: string
  proof (induction s arbitrary: i)
    case Nil
    then show ?case by simp
  next
    case (Cons x xs)
    show ?case
    proof (cases "c \<in> set xs")
      case True
      from Cons.IH [OF True, of "Suc i"] show ?thesis by auto
    next
      case False
      with Cons.prems have x: "x = c" by simp
      show ?thesis
      proof (cases "lastIndexOfFrom (Suc i) [c] xs")
        case None
        then show ?thesis by (simp add: x)
      next
        case (Some k)
        have "\<And>s i k. lastIndexOfFrom i [c] s = Some k \<Longrightarrow> c \<in> set s"
        proof -
          fix s :: string and i k
          show "lastIndexOfFrom i [c] s = Some k \<Longrightarrow> c \<in> set s"
            by (induction s arbitrary: i k) (auto split: option.splits if_splits)
        qed
        with Some False show ?thesis by blast
      qed
    qed
  qed
  have "CHR ''/'' \<in> set currentDir"
    using sub [of "appPath @ ''/''" currentDir] c by auto
  then have "CHR ''/'' \<in> set (normalizePath currentDir)"
    by (auto simp: normalizePath_def)
  from found [OF this, of 0] obtain j
    where j: "lastIndexOf ''/'' (normalizePath currentDir) = Some j"
      and lt: "j < length (normalizePath currentDir)"
    by (auto simp: lastIndexOf_def)
  have "dirname currentDir = take j (normalizePath currentDir)"
    unfolding dirname_def Let_def j by simp
  moreover have "length (normalizePath currentDir) = length currentDir"
    by (simp add: normalizePath_def)
  ultimately have "length (dirname currentDir) < length currentDir"
    using lt by simp
  then show "((appPath, dirname currentDir, snd (tryDeleteDirIfEmpty fs currentDir)),
              (appPath, currentDir, fs))
               \<in> measure (\<lambda>(appPath, currentDir, fs). length currentDir)"
    by simp
qed

declare pruneLoop.simps [simp del]

definition pruneEmptyRouteDirs :: "string \<Rightarrow> string \<Rightarrow> fsys \<Rightarrow> fsys" where
  "pruneEmptyRouteDirs movedFromFilePath appDir fs =
     (let normalizedFilePath = normalizePath movedFromFilePath;
          segments = filterBoolean (splitOn (\<lambda>c. c = CHR ''/'') normalizedFilePath);
          appSegments = normalizeDirSegments appDir
      in case findSubPathIndex segments appSegments of
           None \<Rightarrow> fs
         | Some appIndex \<Rightarrow>
             (let appPath = joinWith ''/'' (take (appIndex + length appSegments) segments);
                  currentDir = dirname normalizedFilePath
              in pruneLoop appPath currentDir fs))"

definition deleteOriginalAndPrune :: "string \<Rightarrow> string \<Rightarrow> fsys \<Rightarrow> (error + unit) \<times> fsys" where
  \<comment> \<open>the block \<open>if (await existsFile(oldPath)) { tryDeleteFile; pruneEmptyRouteDirs }\<close>, which
      the source has twice\<close>
  "deleteOriginalAndPrune oldPath appDir fs =
     (if existsFile fs oldPath then
        (case tryDeleteFile fs oldPath of
           Inl e \<Rightarrow> (Inl e, fs)
         | Inr fs1 \<Rightarrow> (Inr (), pruneEmptyRouteDirs oldPath appDir fs1))
      else (Inr (), fs))"

definition writeMovedFileAndDeleteOriginal ::
    "string \<Rightarrow> string \<Rightarrow> string \<Rightarrow> string \<Rightarrow> fsys \<Rightarrow> (error + unit) \<times> fsys" where
  \<comment> \<open>the result and the file system the call leaves, also when it throws\<close>
  "writeMovedFileAndDeleteOriginal oldPath newPath output appDir fs =
     (if normalizePath oldPath = normalizePath newPath then (Inr (), fs)
      else if existsFile fs newPath then
        (if canReadFile fs then
           (case fsReadFile fs newPath of
              None \<Rightarrow> (Inl (FsFailure newPath), fs)
            | Some existing \<Rightarrow>
                (if existing = output then deleteOriginalAndPrune oldPath appDir fs
                 else (Inl (OverwriteRefused newPath), fs)))
         else (Inl (OverwriteRefused newPath), fs))
      else
        (case fsMkdirRecursive fs (dirname newPath) of
           None \<Rightarrow> (Inl (FsFailure (dirname newPath)), fs)
         | Some fs1 \<Rightarrow>
             (case fsWriteFile fs1 newPath output of
                None \<Rightarrow> (Inl (FsFailure newPath), fs1)
              | Some fs2 \<Rightarrow> deleteOriginalAndPrune oldPath appDir fs2)))"

section \<open>The transform of one file\<close>

text \<open>
  The passes and the syntax tree belong to the pattern matcher. A pass is given by its
  outcome on the file: an error, no change, or a list of edits. \<open>commitEdits\<close> turns the
  merged edits into the text. The tasks are started in the order of \<open>MIGRATION_IDS\<close>;
  \<open>Promise.all\<close> is rejected when one of them is, here with the error of the first in that
  order.
\<close>

fun awaitAll :: "(error + 'a) list \<Rightarrow> error + 'a list" where
  "awaitAll [] = Inr []"
| "awaitAll (Inl e # rs) = Inl e"
| "awaitAll (Inr v # rs) = (case awaitAll rs of Inl e \<Rightarrow> Inl e | Inr vs \<Rightarrow> Inr (v # vs))"

definition mergeEdits :: "'e list option list \<Rightarrow> 'e list" where
  "mergeEdits results = concat (map (\<lambda>r. case r of Some edits \<Rightarrow> edits | None \<Rightarrow> []) results)"

definition transform ::
    "(string \<Rightarrow> json option) \<Rightarrow> (string \<Rightarrow> error + 'e list option) \<Rightarrow> ('e list \<Rightarrow> string)
       \<Rightarrow> world \<Rightarrow> string \<Rightarrow> json option \<Rightarrow> (error + string option) \<times> world" where
  \<comment> \<open>the result is the text, or \<open>None\<close> for the \<open>null\<close> returned after a relocation\<close>
  "transform jsonParse passes commitEdits w filename options =
     (case resolveRuntimeConfig jsonParse w filename options of
        (Inl e, w1) \<Rightarrow> (Inl e, w1)
      | (Inr runtimeConfig, w1) \<Rightarrow>
          (let enabled = enabledMigrations runtimeConfig;
               tasks = map passes (filter (\<lambda>i. i \<in> enabled) MIGRATION_IDS)
           in case awaitAll tasks of
                Inl e \<Rightarrow> (Inl e, w1)
              | Inr results \<Rightarrow>
                  (let commitResult = commitEdits (mergeEdits results);
                       targetPath = (if ''route-file-structure'' \<in> enabled
                                     then computeTanstackTargetPath filename runtimeConfig
                                     else None)
                   in case (if isDryRun (proc w1) then None else Option.bind targetPath truthy) of
                        Some target \<Rightarrow>
                          (let output = (if isRootRouteTarget target
                                         then normalizeRootRouteSource commitResult
                                         else commitResult)
                           in case assertCreateFileRoutePathMatch filename target output runtimeConfig of
                                Inl e \<Rightarrow> (Inl e, w1)
                              | Inr _ \<Rightarrow>
                                  (case writeMovedFileAndDeleteOriginal filename target output
                                          (appDirectory runtimeConfig) (files w1) of
                                     (Inl e, fs') \<Rightarrow> (Inl e, w1\<lparr>files := fs'\<rparr>)
                                   | (Inr _, fs') \<Rightarrow> (Inr None, w1\<lparr>files := fs'\<rparr>)))
                      | None \<Rightarrow> (Inr (Some commitResult), w1))))"

section \<open>The layers of the routes directory, in the words of the specification\<close>

definition configRoutesDirectory :: "CodemodProjectConfig \<Rightarrow> string option" where
  \<comment> \<open>the value the project configuration file supplies, if it supplies one\<close>
  "configRoutesDirectory projectConfig =
     (case pc_routesDirectory projectConfig of
        Some (JStr s) \<Rightarrow> (if normalizeRoutesDirectory s = [] then None
                          else Some (normalizeRoutesDirectory s))
      | _ \<Rightarrow> None)"

definition cliRoutesDirectory :: "process \<Rightarrow> string option" where
  \<comment> \<open>the value of the command-line option \<open>--routes-directory\<close>, if it gives one\<close>
  "cliRoutesDirectory p =
     (case readCliOption p ''routes-directory'' of
        Some v \<Rightarrow> (if normalizeRoutesDirectory v = [] then None
                    else Some (normalizeRoutesDirectory v))
      | None \<Rightarrow> None)"

definition envRoutesDirectory :: "process \<Rightarrow> string option" where
  \<comment> \<open>the value of \<open>CODEMOD_ROUTES_DIRECTORY\<close>, or of \<open>ROUTES_DIRECTORY\<close> when the first is
      not set, if it gives one\<close>
  "envRoutesDirectory p =
     (case (case env p ''CODEMOD_ROUTES_DIRECTORY'' of
              Some v \<Rightarrow> Some v
            | None \<Rightarrow> env p ''ROUTES_DIRECTORY'') of
        Some v \<Rightarrow> (if normalizeRoutesDirectory v = [] then None
                    else Some (normalizeRoutesDirectory v))
      | None \<Rightarrow> None)"

definition viteConfigNames :: "string list" where
  "viteConfigNames =
     [''vite.config.ts'', ''vite.config.js'', ''vite.config.mts'', ''vite.config.cts'',
      ''vite.config.mjs'', ''vite.config.cjs'']"

definition scannedRoutesDirectory :: "fsys \<Rightarrow> string \<Rightarrow> CodemodProjectConfig \<Rightarrow> string option" where
  \<comment> \<open>the \<open>routesDirectory\<close> field found in the nearest build-tool configuration file above
      the app directory of the file, if there is one\<close>
  "scannedRoutesDirectory fs filename projectConfig =
     (let appDir = (case pc_appDirectory projectConfig of
                      Some (JStr s) \<Rightarrow> (if normalizeAppDirectory s = [] then ''app''
                                        else normalizeAppDirectory s)
                    | _ \<Rightarrow> ''app'')
      in case lastIndexOf (''/'' @ appDir @ ''/'') (normalizePath filename) of
           None \<Rightarrow> None
         | Some appMarker \<Rightarrow>
             (let projectRoot = (if take appMarker (normalizePath filename) = [] then ''.''
                                 else take appMarker (normalizePath filename))
              in case findNearestFile fs projectRoot viteConfigNames of
                   None \<Rightarrow> None
                 | Some configFile \<Rightarrow>
                     (case readTextFile fs configFile of
                        None \<Rightarrow> None
                      | Some source \<Rightarrow> parseRoutesDirectoryFromViteConfig source)))"

definition emptyFs :: fsys where
  "emptyFs = \<lparr>cwd = [], fileTable = [], dirTable = [], canReadFile = True, canUnlink = True,
               canRm = True\<rparr>"

definition emptyWorld :: world where
  \<comment> \<open>a process without arguments and variables, an empty file system, empty caches\<close>
  "emptyWorld = \<lparr>proc = \<lparr>argv = [], env = (\<lambda>_. None)\<rparr>, files = emptyFs,
                  routesDirCache = (\<lambda>_. None), projectConfigCache = (\<lambda>_. None)\<rparr>"

definition paramsOptions :: "string \<Rightarrow> string \<Rightarrow> json option" where
  \<comment> \<open>the options object \<open>{ params: { [key]: value } }\<close>\<close>
  "paramsOptions key v = Some (JObj [(''params'', JObj [(key, JStr v)])])"

text \<open>Sample configurations and worlds for the precedence of the routes directory.\<close>

definition configWithRoutes :: CodemodProjectConfig where
  "configWithRoutes = emptyConfig\<lparr>pc_routesDirectory := Some (JStr ''src/routes'')\<rparr>"

definition worldWithEnv :: world where
  "worldWithEnv =
     emptyWorld\<lparr>proc := \<lparr>argv = [],
                          env = (\<lambda>k. if k = ''CODEMOD_ROUTES_DIRECTORY'' then Some ''from-env''
                                      else None)\<rparr>\<rparr>"

definition worldWithVite :: world where
  "worldWithVite =
     emptyWorld\<lparr>files := emptyFs\<lparr>fileTable :=
        [([''proj'', ''vite.config.ts''], ''router: { routesDirectory: `src/pages` }'')],
        dirTable := [[''proj'']]\<rparr>\<rparr>"

text \<open>Sample file systems for the relocation and the pruning.\<close>

definition blogFs :: fsys where
  \<comment> \<open>\<open>/proj/app/keep.tsx\<close> and the empty directory \<open>/proj/app/blog\<close>\<close>
  "blogFs = emptyFs\<lparr>fileTable := [([''proj'', ''app'', ''keep.tsx''], ''keep'')],
                     dirTable := [[''proj''], [''proj'', ''app''], [''proj'', ''app'', ''blog'']]\<rparr>"

definition nestedFs :: fsys where
  \<comment> \<open>the empty directory \<open>app/x\<close> in the directory \<open>app\<close> of the working directory\<close>
  "nestedFs = emptyFs\<lparr>dirTable := [[''app''], [''app'', ''x'']]\<rparr>"


text \<open>Sample passes and texts for the transform of one file.\<close>

definition noJson :: "string \<Rightarrow> json option" where
  \<comment> \<open>a \<open>JSON.parse\<close> that is never reached: no configuration file exists\<close>
  "noJson source = None"

definition idlePasses :: "string \<Rightarrow> error + unit list option" where
  \<comment> \<open>every pass reports no change\<close>
  "idlePasses i = Inr None"

definition failingPasses :: "string \<Rightarrow> error + unit list option" where
  \<comment> \<open>the pass \<open>next-link\<close> raises an error, the others report no change\<close>
  "failingPasses i = (if i = ''next-link'' then Inl (PassFailure ''next-link failed'') else Inr None)"


definition plainText :: "unit list \<Rightarrow> string" where
  \<comment> \<open>a committed text without any route declaration\<close>
  "plainText edits = ''export default function Layout() {}''"

section \<open>Pass enablement\<close>

lemma fold_addRaw:
  "fold addRaw raws S = S \<union> knownStrings raws"
proof (induction raws arbitrary: S)
  case Nil
  show ?case by (simp add: knownStrings_def)
next
  case (Cons r raws)
  show ?case
    unfolding fold_Cons comp_def Cons.IH
    by (cases r) (auto simp: addRaw_def knownStrings_def normalizeMigrationId_def)
qed

lemma fold_deleteRaw:
  "fold deleteRaw raws S = S - knownStrings raws"
proof (induction raws arbitrary: S)
  case Nil
  show ?case by (simp add: knownStrings_def)
next
  case (Cons r raws)
  show ?case
    unfolding fold_Cons comp_def Cons.IH
    by (cases r) (auto simp: deleteRaw_def knownStrings_def normalizeMigrationId_def)
qed

lemma fold_applyEntry:
  "S \<subseteq> set MIGRATION_IDS \<Longrightarrow>
   fold applyEntry kvs S =
     {i \<in> set MIGRATION_IDS. (case boolOverride kvs i of Some b \<Rightarrow> b | None \<Rightarrow> i \<in> S)}"
proof (induction kvs arbitrary: S)
  case Nil
  then show ?case by auto
next
  case (Cons kv kvs)
  obtain k v where kv: "kv = (k, v)" by (cases kv)
  have sub: "applyEntry kv S \<subseteq> set MIGRATION_IDS"
    using Cons.prems
    by (auto simp: applyEntry_def normalizeMigrationId_def split: json.splits if_splits)
  show ?case
    unfolding fold_Cons comp_def Cons.IH [OF sub]
    using Cons.prems
    by (auto simp: kv applyEntry_def normalizeMigrationId_def
             split: option.splits json.splits if_splits)
qed

lemma knownStrings_subset: "knownStrings raws \<subseteq> set MIGRATION_IDS"
  by (auto simp: knownStrings_def)

lemma resolveEnabledMigrations_eq_layered:
  "resolveEnabledMigrations config = layered (allowList config) config"
proof -
  have a: "(case pc_enabledMigrations config of
              Some (JArr raws) \<Rightarrow> (if length raws > 0 then fold addRaw raws {} else set MIGRATION_IDS)
            | _ \<Rightarrow> set MIGRATION_IDS) = allowList config"
    by (auto simp: allowList_def fold_addRaw split: option.splits json.splits)
  have asub: "allowList config \<subseteq> set MIGRATION_IDS"
    using knownStrings_subset by (auto simp: allowList_def split: option.splits json.splits)
  have d: "(case pc_disabledMigrations config of
              Some (JArr raws) \<Rightarrow> fold deleteRaw raws (allowList config)
            | _ \<Rightarrow> allowList config) = allowList config - denyList config"
    by (auto simp: denyList_def fold_deleteRaw split: option.splits json.splits)
  have dsub: "allowList config - denyList config \<subseteq> set MIGRATION_IDS"
    using asub by auto
  have m: "(case pc_migrations config of
              Some (JObj entries) \<Rightarrow> fold applyEntry entries (allowList config - denyList config)
            | _ \<Rightarrow> allowList config - denyList config) = layered (allowList config) config"
    using dsub
    by (auto simp: layered_def overrideMap_def fold_applyEntry split: option.splits json.splits)
  show ?thesis
    unfolding resolveEnabledMigrations_def Let_def a d m ..
qed

lemma resolveEnabledMigrations_known: "resolveEnabledMigrations config \<subseteq> set MIGRATION_IDS"
  by (auto simp: resolveEnabledMigrations_eq_layered layered_def)

text \<open>
  C7 (as amended). The enabled set is the allow-list (all known ids when
  \<open>enabledMigrations\<close> is absent, is not a list, or is the empty list), minus the known ids of
  \<open>disabledMigrations\<close>, with the boolean entries of \<open>migrations\<close> applied last: true adds
  the id and false removes it whatever the first two layers said. Ids that are not known
  never appear.
\<close>

theorem resolveEnabledMigrations_layers:
  "resolveEnabledMigrations config = layered (allowList config) config"
  by (rule resolveEnabledMigrations_eq_layered)

text \<open>
  C7 as stated fails for a configuration whose \<open>enabledMigrations\<close> is the empty list: the
  allow-list it gives is empty, yet every known pass stays enabled.
\<close>

theorem resolveEnabledMigrations_empty_list_counterexample:
  "resolveEnabledMigrations (emptyConfig\<lparr>pc_enabledMigrations := Some (JArr [])\<rparr>)
     \<noteq> layered (claimedAllowList (emptyConfig\<lparr>pc_enabledMigrations := Some (JArr [])\<rparr>))
          (emptyConfig\<lparr>pc_enabledMigrations := Some (JArr [])\<rparr>)"
proof -
  have "''next-image'' \<in> resolveEnabledMigrations (emptyConfig\<lparr>pc_enabledMigrations := Some (JArr [])\<rparr>)"
    by (simp add: resolveEnabledMigrations_def emptyConfig_def MIGRATION_IDS_def)
  moreover have "''next-image'' \<notin> layered (claimedAllowList (emptyConfig\<lparr>pc_enabledMigrations := Some (JArr [])\<rparr>))
          (emptyConfig\<lparr>pc_enabledMigrations := Some (JArr [])\<rparr>)"
    by (simp add: layered_def claimedAllowList_def knownStrings_def overrideMap_def emptyConfig_def)
  ultimately show ?thesis by metis
qed

section \<open>Segment mapping\<close>

text \<open>
  C8. With the default configuration, \<open>app/(marketing)/about/page.tsx\<close> is relocated to
  \<open>routes/_marketing/about/index.tsx\<close>: the group segment \<open>(marketing)\<close> becomes
  \<open>_marketing\<close>, the plain segment \<open>about\<close> is unchanged and \<open>page.tsx\<close> becomes
  \<open>index.tsx\<close>.
\<close>

theorem computeTanstackTargetPath_marketing_about:
  "computeTanstackTargetPath ''app/(marketing)/about/page.tsx'' defaultRuntimeConfig
     = Some ''routes/_marketing/about/index.tsx''
   \<and> mapRouteSegment ''(marketing)'' = ''_marketing''
   \<and> mapRouteSegment ''about'' = ''about''
   \<and> mapRouteFilename ''page.tsx'' False = Some ''index.tsx''"
  by code_simp
















section \<open>Precedence of the routes directory\<close>

lemma normalizeRoutesDirectory_Nil: "normalizeRoutesDirectory [] = []"
  by (simp add: normalizeRoutesDirectory_def trim_def)

lemma normalizeRoutesDirectory_routes: "normalizeRoutesDirectory ''routes'' = ''routes''"
  by code_simp

lemma config_layer:
  "Option.bind (jsonString (pc_routesDirectory pc)) (\<lambda>s. truthy (normalizeRoutesDirectory s))
     = configRoutesDirectory pc"
  by (simp add: configRoutesDirectory_def jsonString_def truthy_def split: option.splits json.splits)

lemma process_layer:
  "getRoutesDirectoryOverride p
     = (case cliRoutesDirectory p of Some v \<Rightarrow> Some v | None \<Rightarrow> envRoutesDirectory p)"
proof (cases "readCliOption p ''routes-directory''")
  case None
  then show ?thesis
    by (auto simp: getRoutesDirectoryOverride_def cliRoutesDirectory_def envRoutesDirectory_def
          truthy_def Let_def normalizeRoutesDirectory_Nil split: option.splits)
next
  case (Some v)
  then show ?thesis
    by (auto simp: getRoutesDirectoryOverride_def cliRoutesDirectory_def envRoutesDirectory_def
          truthy_def Let_def normalizeRoutesDirectory_Nil split: option.splits)
qed

lemma process_layer_truthy:
  "Option.bind (getRoutesDirectoryOverride p) truthy
     = (case cliRoutesDirectory p of Some v \<Rightarrow> Some v | None \<Rightarrow> envRoutesDirectory p)"
  unfolding process_layer
  by (auto simp: cliRoutesDirectory_def envRoutesDirectory_def truthy_def split: option.splits)

lemma app_layer:
  "(case Option.bind (jsonString (pc_appDirectory pc)) (\<lambda>s. truthy (normalizeAppDirectory s)) of
      Some d \<Rightarrow> d | None \<Rightarrow> ''app'')
   = (case pc_appDirectory pc of
        Some (JStr s) \<Rightarrow> (if normalizeAppDirectory s = [] then ''app'' else normalizeAppDirectory s)
      | _ \<Rightarrow> ''app'')"
  by (simp add: jsonString_def truthy_def split: option.splits json.splits)

lemma parseRoutesDirectoryFromViteConfig_Nil: "parseRoutesDirectoryFromViteConfig [] = None"
  by (simp add: parseRoutesDirectoryFromViteConfig_def matchViteRoutesDirectoryAt_def)

lemma load_layer:
  "loadRoutesDirectory fs root
     = (case (case findNearestFile fs root viteConfigNames of
                None \<Rightarrow> None
              | Some configFile \<Rightarrow>
                  (case readTextFile fs configFile of
                     None \<Rightarrow> None
                   | Some source \<Rightarrow> parseRoutesDirectoryFromViteConfig source)) of
          Some v \<Rightarrow> normalizeRoutesDirectory v
        | None \<Rightarrow> ''routes'')"
  by (simp add: loadRoutesDirectory_def viteConfigNames_def truthy_def
        parseRoutesDirectoryFromViteConfig_Nil normalizeRoutesDirectory_routes split: option.splits)

lemma fromOptions_truthy:
  "Option.bind (getRoutesDirectoryOverrideFromOptions options) truthy
     = getRoutesDirectoryOverrideFromOptions options"
proof -
  have "firstNormalized ps ks = Some p \<Longrightarrow> p \<noteq> []" for ps ks p
    by (induction ks) (auto split: option.splits if_splits)
  then have "getRoutesDirectoryOverrideFromOptions options = Some p \<Longrightarrow> p \<noteq> []" for p
    unfolding getRoutesDirectoryOverrideFromOptions_def
    by (auto split: option.splits json.splits simp del: firstNormalized.simps)
  then show ?thesis
    by (cases "getRoutesDirectoryOverrideFromOptions options") (auto simp: truthy_def)
qed

text \<open>
  C1 (as amended). The routes directory is resolved by this precedence, highest first:
  (1) the value of the project configuration file; (2) the explicit per-invocation
  parameter; (3) the process: the command-line option \<open>--routes-directory\<close>, then the
  environment variable; (4) the value scanned from the build-tool configuration; (5) the
  default \<open>routes\<close>. The first layer that supplies a non-empty value wins outright: the
  result is that value, normalized once more for the layers (2) to (4). The layers (4) and
  (5) are stated for an empty cache of scanned values.
\<close>

theorem getConfiguredRoutesDirectory_precedence:
  assumes "r = fst (getConfiguredRoutesDirectory w filename projectConfig
                      (getRoutesDirectoryOverrideFromOptions options))"
  shows "(\<forall>c. configRoutesDirectory projectConfig = Some c \<longrightarrow> r = c)
       \<and> (\<forall>p. configRoutesDirectory projectConfig = None
              \<and> getRoutesDirectoryOverrideFromOptions options = Some p
            \<longrightarrow> r = normalizeRoutesDirectory p)
       \<and> (\<forall>v. configRoutesDirectory projectConfig = None
              \<and> getRoutesDirectoryOverrideFromOptions options = None
              \<and> cliRoutesDirectory (proc w) = Some v
            \<longrightarrow> r = normalizeRoutesDirectory v)
       \<and> (\<forall>v. configRoutesDirectory projectConfig = None
              \<and> getRoutesDirectoryOverrideFromOptions options = None
              \<and> cliRoutesDirectory (proc w) = None
              \<and> envRoutesDirectory (proc w) = Some v
            \<longrightarrow> r = normalizeRoutesDirectory v)
       \<and> (\<forall>v. configRoutesDirectory projectConfig = None
              \<and> getRoutesDirectoryOverrideFromOptions options = None
              \<and> cliRoutesDirectory (proc w) = None
              \<and> envRoutesDirectory (proc w) = None
              \<and> routesDirCache w = (\<lambda>_. None)
              \<and> scannedRoutesDirectory (files w) filename projectConfig = Some v
            \<longrightarrow> r = normalizeRoutesDirectory v)
       \<and> (configRoutesDirectory projectConfig = None
              \<and> getRoutesDirectoryOverrideFromOptions options = None
              \<and> cliRoutesDirectory (proc w) = None
              \<and> envRoutesDirectory (proc w) = None
              \<and> routesDirCache w = (\<lambda>_. None)
              \<and> scannedRoutesDirectory (files w) filename projectConfig = None
            \<longrightarrow> r = ''routes'')"
proof -
  let ?ov = "getRoutesDirectoryOverrideFromOptions options"
  have l1: "configRoutesDirectory projectConfig = Some c \<Longrightarrow> r = c" for c
    unfolding assms getConfiguredRoutesDirectory_def config_layer by simp
  have l2: "configRoutesDirectory projectConfig = None \<Longrightarrow> ?ov = Some p
              \<Longrightarrow> r = normalizeRoutesDirectory p" for p
    unfolding assms getConfiguredRoutesDirectory_def config_layer fromOptions_truthy by simp
  have l3: "configRoutesDirectory projectConfig = None \<Longrightarrow> ?ov = None
              \<Longrightarrow> cliRoutesDirectory (proc w) = Some v \<Longrightarrow> r = normalizeRoutesDirectory v" for v
    unfolding assms getConfiguredRoutesDirectory_def config_layer fromOptions_truthy
      process_layer_truthy by simp
  have l4: "configRoutesDirectory projectConfig = None \<Longrightarrow> ?ov = None
              \<Longrightarrow> cliRoutesDirectory (proc w) = None \<Longrightarrow> envRoutesDirectory (proc w) = Some v
              \<Longrightarrow> r = normalizeRoutesDirectory v" for v
    unfolding assms getConfiguredRoutesDirectory_def config_layer fromOptions_truthy
      process_layer_truthy by simp
  have l5: "configRoutesDirectory projectConfig = None \<Longrightarrow> ?ov = None
              \<Longrightarrow> cliRoutesDirectory (proc w) = None \<Longrightarrow> envRoutesDirectory (proc w) = None
              \<Longrightarrow> routesDirCache w = (\<lambda>_. None)
              \<Longrightarrow> r = (case scannedRoutesDirectory (files w) filename projectConfig of
                          Some v \<Rightarrow> normalizeRoutesDirectory v
                        | None \<Rightarrow> ''routes'')"
    unfolding assms getConfiguredRoutesDirectory_def config_layer fromOptions_truthy
      process_layer_truthy app_layer scannedRoutesDirectory_def load_layer
    by (simp add: Let_def truthy_def split: option.splits)
  have l5a: "configRoutesDirectory projectConfig = None \<Longrightarrow> ?ov = None
              \<Longrightarrow> cliRoutesDirectory (proc w) = None \<Longrightarrow> envRoutesDirectory (proc w) = None
              \<Longrightarrow> routesDirCache w = (\<lambda>_. None)
              \<Longrightarrow> scannedRoutesDirectory (files w) filename projectConfig = Some v
              \<Longrightarrow> r = normalizeRoutesDirectory v" for v
    using l5 by simp
  have l5b: "configRoutesDirectory projectConfig = None \<Longrightarrow> ?ov = None
              \<Longrightarrow> cliRoutesDirectory (proc w) = None \<Longrightarrow> envRoutesDirectory (proc w) = None
              \<Longrightarrow> routesDirCache w = (\<lambda>_. None)
              \<Longrightarrow> scannedRoutesDirectory (files w) filename projectConfig = None
              \<Longrightarrow> r = ''routes''"
    using l5 by simp
  show ?thesis
    by (intro conjI allI impI; (elim conjE)?)
       ((rule l1; assumption) | (rule l2; assumption) | (rule l3; assumption)
         | (rule l4; assumption) | (rule l5a; assumption) | (rule l5b; assumption))+
qed

theorem getConfiguredRoutesDirectory_precedence_witness:
  "fst (getConfiguredRoutesDirectory worldWithEnv ''/proj/app/page.tsx'' configWithRoutes
          (getRoutesDirectoryOverrideFromOptions (paramsOptions ''routesDirectory'' ''custom'')))
     = ''src/routes''
   \<and> fst (getConfiguredRoutesDirectory worldWithEnv ''/proj/app/page.tsx'' emptyConfig
          (getRoutesDirectoryOverrideFromOptions (paramsOptions ''routesDirectory'' ''custom'')))
     = ''custom''
   \<and> fst (getConfiguredRoutesDirectory worldWithEnv ''/proj/app/page.tsx'' emptyConfig
          (getRoutesDirectoryOverrideFromOptions None))
     = ''from-env''
   \<and> fst (getConfiguredRoutesDirectory worldWithVite ''/proj/app/page.tsx'' emptyConfig
          (getRoutesDirectoryOverrideFromOptions None))
     = ''src/pages''
   \<and> fst (getConfiguredRoutesDirectory emptyWorld ''/proj/app/page.tsx'' emptyConfig
          (getRoutesDirectoryOverrideFromOptions None))
     = ''routes''"
proof -
  have c1: "configRoutesDirectory configWithRoutes = Some ''src/routes''" by code_simp
  have c0: "configRoutesDirectory emptyConfig = None" by code_simp
  have p1: "getRoutesDirectoryOverrideFromOptions (paramsOptions ''routesDirectory'' ''custom'')
              = Some ''custom''" by code_simp
  have p0: "getRoutesDirectoryOverrideFromOptions None = None" by code_simp
  have n1: "normalizeRoutesDirectory ''custom'' = ''custom''" by code_simp
  have cliE: "cliRoutesDirectory (proc worldWithEnv) = None" by code_simp
  have envE: "envRoutesDirectory (proc worldWithEnv) = Some ''from-env''" by code_simp
  have n2: "normalizeRoutesDirectory ''from-env'' = ''from-env''" by code_simp
  have cliV: "cliRoutesDirectory (proc worldWithVite) = None" by code_simp
  have envV: "envRoutesDirectory (proc worldWithVite) = None" by code_simp
  have cacheV: "routesDirCache worldWithVite = (\<lambda>_. None)"
    by (simp add: worldWithVite_def emptyWorld_def)
  have scanV: "scannedRoutesDirectory (files worldWithVite) ''/proj/app/page.tsx'' emptyConfig
                 = Some ''src/pages''" by code_simp
  have n3: "normalizeRoutesDirectory ''src/pages'' = ''src/pages''" by code_simp
  have cli0: "cliRoutesDirectory (proc emptyWorld) = None" by code_simp
  have env0: "envRoutesDirectory (proc emptyWorld) = None" by code_simp
  have cache0: "routesDirCache emptyWorld = (\<lambda>_. None)"
    by (simp add: emptyWorld_def)
  have scan0: "scannedRoutesDirectory (files emptyWorld) ''/proj/app/page.tsx'' emptyConfig = None"
    by code_simp
  have a: "fst (getConfiguredRoutesDirectory worldWithEnv ''/proj/app/page.tsx'' configWithRoutes
          (getRoutesDirectoryOverrideFromOptions (paramsOptions ''routesDirectory'' ''custom'')))
     = ''src/routes''"
    using getConfiguredRoutesDirectory_precedence [OF refl, of configWithRoutes worldWithEnv
        "''/proj/app/page.tsx''" "paramsOptions ''routesDirectory'' ''custom''"] c1 by blast
  have b: "fst (getConfiguredRoutesDirectory worldWithEnv ''/proj/app/page.tsx'' emptyConfig
          (getRoutesDirectoryOverrideFromOptions (paramsOptions ''routesDirectory'' ''custom'')))
     = ''custom''"
    using getConfiguredRoutesDirectory_precedence [OF refl, of emptyConfig worldWithEnv
        "''/proj/app/page.tsx''" "paramsOptions ''routesDirectory'' ''custom''"] c0 p1 n1 by simp
  have c: "fst (getConfiguredRoutesDirectory worldWithEnv ''/proj/app/page.tsx'' emptyConfig
          (getRoutesDirectoryOverrideFromOptions None)) = ''from-env''"
    using getConfiguredRoutesDirectory_precedence [OF refl, of emptyConfig worldWithEnv
        "''/proj/app/page.tsx''" None] c0 p0 cliE envE n2 by simp
  have d: "fst (getConfiguredRoutesDirectory worldWithVite ''/proj/app/page.tsx'' emptyConfig
          (getRoutesDirectoryOverrideFromOptions None)) = ''src/pages''"
    using getConfiguredRoutesDirectory_precedence [OF refl, of emptyConfig worldWithVite
        "''/proj/app/page.tsx''" None] c0 p0 cliV envV cacheV scanV n3 by simp
  have e: "fst (getConfiguredRoutesDirectory emptyWorld ''/proj/app/page.tsx'' emptyConfig
          (getRoutesDirectoryOverrideFromOptions None)) = ''routes''"
    using getConfiguredRoutesDirectory_precedence [OF refl, of emptyConfig emptyWorld
        "''/proj/app/page.tsx''" None] c0 p0 cli0 env0 cache0 scan0 by simp
  show ?thesis using a b c d e by simp
qed

text \<open>
  C1 as stated fails when the configuration file and the per-invocation parameter both
  supply a routes directory: the file's value is the result, not the parameter's.
\<close>

theorem getConfiguredRoutesDirectory_param_counterexample:
  "getRoutesDirectoryOverrideFromOptions (paramsOptions ''routesDirectory'' ''custom'')
     = Some ''custom''
   \<and> configRoutesDirectory configWithRoutes = Some ''src/routes''
   \<and> fst (getConfiguredRoutesDirectory emptyWorld ''/proj/app/page.tsx'' configWithRoutes
            (getRoutesDirectoryOverrideFromOptions (paramsOptions ''routesDirectory'' ''custom'')))
       \<noteq> ''custom''"
  by code_simp

section \<open>Normal form of the route path\<close>

lemma finishRoutePath_leading_slash: "startsWith ''/'' (finishRoutePath path)"
proof -
  have "\<exists>r. (if \<not> startsWith ''/'' path then CHR ''/'' # path else path) = CHR ''/'' # r"
    by (cases path) auto
  then obtain r where p1: "(if \<not> startsWith ''/'' path then CHR ''/'' # path else path) = CHR ''/'' # r"
    by blast
  show ?thesis
  proof (cases "r = []")
    case True
    then show ?thesis
      unfolding finishRoutePath_def Let_def p1 by (simp add: removeTrailingSlash_def)
  next
    case False
    then have "removeTrailingSlash (CHR ''/'' # r) = CHR ''/'' # removeTrailingSlash r"
      by (simp add: removeTrailingSlash_def)
    then show ?thesis
      unfolding finishRoutePath_def Let_def p1 by simp
  qed
qed

text \<open>
  C10 fails on the code. Every route path the functions return begins with a slash
  (\<open>finishRoutePath_leading_slash\<close>), but only one trailing slash is removed: for the file
  \<open>app/a//route.ts\<close> the path \<open>calculateRoutePath\<close> returns is \<open>/a/\<close>, as is the path
  \<open>calculateTanstackRoute\<close> returns for \<open>/site/app/a///page.tsx\<close>, and
  \<open>computeExpectedRoutePathFromSourcePath\<close> returns a path with a trailing slash for
  \<open>/p/app/[(a/)/]/page.tsx\<close>.
\<close>

theorem calculateRoutePath_trailing_slash:
  "calculateRoutePath ''app/a//route.ts'' = ''/a/''
   \<and> calculateTanstackRoute ''/site/app/a///page.tsx'' = ''/a/''
   \<and> computeExpectedRoutePathFromSourcePath ''/p/app/[(a/)/]/page.tsx'' defaultRuntimeConfig
       = Some ''/$_a/''"
  by code_simp

section \<open>Pruning of empty route directories\<close>

text \<open>
  C5 fails on the code. The app path is joined from the non-empty segments of the file
  name and compared, as a string, with the directory names of the file name itself. For an
  absolute file name the app path has lost its leading slash, the loop is never entered and
  no directory is removed: \<open>/proj/app/blog\<close> is empty after the deletion of
  \<open>/proj/app/blog/page.tsx\<close> and stays.
\<close>

theorem pruneEmptyRouteDirs_absolute_path:
  "fsReaddir blogFs ''/proj/app/blog'' = Some []
   \<and> pruneEmptyRouteDirs ''/proj/app/blog/page.tsx'' ''app'' blogFs = blogFs
   \<and> isDirKey (pruneEmptyRouteDirs ''/proj/app/blog/page.tsx'' ''app'' blogFs)
         [''proj'', ''app'', ''blog'']"
  by code_simp

text \<open>
  For a file name with an empty segment the same comparison lets the loop reach the app
  directory under another spelling, \<open>app/\<close>, and remove it.
\<close>

lemma pruneEmptyRouteDirs_removes_app_root:
  "isDirKey nestedFs [''app'']
   \<and> \<not> isDirKey (pruneEmptyRouteDirs ''app//x/page.tsx'' ''app'' nestedFs) [''app'']"
  by code_simp

text \<open>Whatever the file system holds, nothing is pruned for that absolute file name.\<close>

lemma pruneEmptyRouteDirs_absolute_path_any:
  "pruneEmptyRouteDirs ''/proj/app/blog/page.tsx'' ''app'' fs = fs"
proof -
  have idx: "findSubPathIndex
               (filterBoolean (splitOn (\<lambda>c. c = CHR ''/'') (normalizePath ''/proj/app/blog/page.tsx'')))
               (normalizeDirSegments ''app'') = Some 1"
    by code_simp
  have ap: "joinWith ''/'' (take (1 + length (normalizeDirSegments ''app''))
               (filterBoolean (splitOn (\<lambda>c. c = CHR ''/'') (normalizePath ''/proj/app/blog/page.tsx''))))
             = ''proj/app''"
    by code_simp
  have dn: "dirname (normalizePath ''/proj/app/blog/page.tsx'') = ''/proj/app/blog''"
    by code_simp
  have sw: "\<not> startsWith (''proj/app'' @ ''/'') ''/proj/app/blog''"
    by code_simp
  have "pruneLoop ''proj/app'' ''/proj/app/blog'' fs = fs"
    by (subst pruneLoop.simps) (simp only: sw simp_thms if_False)
  then show ?thesis
    unfolding pruneEmptyRouteDirs_def Let_def idx option.case ap dn .
qed

section \<open>Relocation onto an existing target\<close>













section \<open>The transform and the file system\<close>

lemma readProjectConfig_keeps:
  "files (snd (readProjectConfig jsonParse w filename)) = files w
   \<and> proc (snd (readProjectConfig jsonParse w filename)) = proc w
   \<and> routesDirCache (snd (readProjectConfig jsonParse w filename)) = routesDirCache w"
  by (simp add: readProjectConfig_def Let_def split: option.splits)

lemma getConfiguredRoutesDirectory_keeps:
  "files (snd (getConfiguredRoutesDirectory w filename projectConfig override)) = files w
   \<and> proc (snd (getConfiguredRoutesDirectory w filename projectConfig override)) = proc w"
  by (simp add: getConfiguredRoutesDirectory_def Let_def split: option.splits)

lemma resolveRuntimeConfig_keeps:
  assumes "resolveRuntimeConfig jsonParse w filename options = (r, w1)"
  shows "files w1 = files w \<and> proc w1 = proc w"
proof -
  obtain pc wa where a: "readProjectConfig jsonParse w filename = (pc, wa)"
    by (cases "readProjectConfig jsonParse w filename")
  obtain rd wb where b: "getConfiguredRoutesDirectory wa filename pc
                           (getRoutesDirectoryOverrideFromOptions options) = (rd, wb)"
    by (cases "getConfiguredRoutesDirectory wa filename pc
                 (getRoutesDirectoryOverrideFromOptions options)")
  have "w1 = wb"
    using assms by (simp add: resolveRuntimeConfig_def a b Let_def split: sum.splits)
  moreover have "files wa = files w \<and> proc wa = proc w"
    using readProjectConfig_keeps [of jsonParse w filename] a by simp
  moreover have "files wb = files wa \<and> proc wb = proc wa"
    using getConfiguredRoutesDirectory_keeps [of wa filename pc
            "getRoutesDirectoryOverrideFromOptions options"] b by simp
  ultimately show ?thesis by simp
qed

lemma resolveRuntimeConfig_enabled:
  assumes "resolveRuntimeConfig jsonParse w filename options = (Inr cfg, w1)"
  shows "\<exists>pc. enabledMigrations cfg = resolveEnabledMigrations pc"
proof -
  obtain pc wa where a: "readProjectConfig jsonParse w filename = (pc, wa)"
    by (cases "readProjectConfig jsonParse w filename")
  obtain rd wb where b: "getConfiguredRoutesDirectory wa filename pc
                           (getRoutesDirectoryOverrideFromOptions options) = (rd, wb)"
    by (cases "getConfiguredRoutesDirectory wa filename pc
                 (getRoutesDirectoryOverrideFromOptions options)")
  show ?thesis
    using assms by (auto simp: resolveRuntimeConfig_def a b Let_def split: sum.splits)
qed

lemma awaitAll_error:
  "Inl e \<in> set rs \<Longrightarrow> \<exists>e'. awaitAll rs = Inl e' \<and> Inl e' \<in> set rs"
proof (induction rs)
  case Nil
  then show ?case by simp
next
  case (Cons r rs)
  show ?case
  proof (cases r)
    case (Inl a)
    then show ?thesis by simp
  next
    case (Inr v)
    with Cons.prems have "Inl e \<in> set rs" by auto
    from Cons.IH [OF this] obtain e' where "awaitAll rs = Inl e'" "Inl e' \<in> set rs" by blast
    with Inr show ?thesis by simp
  qed
qed



section \<open>Invariant check before the relocation\<close>




section \<open>Failure of a pass\<close>

text \<open>
  C6. If an enabled pass raises an error, \<open>transform\<close> fails with the error of an enabled
  pass: no text is committed or returned, no invariant error is raised, and the file system
  is as it was before the call.
\<close>

theorem transform_pass_failure:
  assumes "resolveRuntimeConfig jsonParse w filename options = (Inr runtimeConfig, w1)"
    and "i \<in> enabledMigrations runtimeConfig" and "passes i = Inl e"
  shows "\<exists>e'. transform jsonParse passes commitEdits w filename options = (Inl e', w1)
              \<and> (\<exists>j. j \<in> enabledMigrations runtimeConfig \<and> passes j = Inl e')
              \<and> files w1 = files w"
proof -
  let ?tasks = "map passes (filter (\<lambda>i. i \<in> enabledMigrations runtimeConfig) MIGRATION_IDS)"
  have "i \<in> set MIGRATION_IDS"
    using resolveRuntimeConfig_enabled [OF assms(1)] resolveEnabledMigrations_known assms(2)
    by auto
  then have "Inl e \<in> set ?tasks"
    using assms(2,3) by (auto simp: image_iff)
  from awaitAll_error [OF this] obtain e' where
    e': "awaitAll ?tasks = Inl e'" and mem: "Inl e' \<in> set ?tasks"
    by blast
  from mem obtain j where "j \<in> enabledMigrations runtimeConfig" "passes j = Inl e'"
    by auto
  moreover have "transform jsonParse passes commitEdits w filename options = (Inl e', w1)"
    by (simp add: transform_def assms(1) Let_def e')
  moreover have "files w1 = files w"
    using resolveRuntimeConfig_keeps [OF assms(1)] by simp
  ultimately show ?thesis by blast
qed

theorem transform_pass_failure_witness:
  "fst (transform noJson failingPasses plainText emptyWorld ''app/about/page.tsx'' None)
     = Inl (PassFailure ''next-link failed'')
   \<and> files (snd (transform noJson failingPasses plainText emptyWorld ''app/about/page.tsx'' None))
     = files emptyWorld"
proof -
  let ?w1 = "snd (resolveRuntimeConfig noJson emptyWorld ''app/about/page.tsx'' None)"
  have "fst (resolveRuntimeConfig noJson emptyWorld ''app/about/page.tsx'' None)
          = Inr defaultRuntimeConfig"
    by code_simp
  then have c1: "resolveRuntimeConfig noJson emptyWorld ''app/about/page.tsx'' None
                   = (Inr defaultRuntimeConfig, ?w1)"
    by (metis prod.collapse)
  have c2: "''next-link'' \<in> enabledMigrations defaultRuntimeConfig" by code_simp
  have c4: "failingPasses ''next-link'' = Inl (PassFailure ''next-link failed'')" by code_simp
  have only: "failingPasses j = Inl e' \<Longrightarrow> e' = PassFailure ''next-link failed''" for j e'
    by (simp add: failingPasses_def split: if_splits)
  from transform_pass_failure [where passes = failingPasses and i = "''next-link''"
         and commitEdits = plainText, OF c1 c2 c4] only
  show ?thesis by force
qed

section \<open>Exclusion from relocation\<close>

text \<open>
  C4 (as amended). Let \<open>rel\<close> be the directory segments between the app directory and the
  file name. If one of them is an underscore followed by at least one more character
  (a private folder), or an \<open>@\<close> followed by at least one more character (a parallel
  route), or if one of them is a route group \<open>(name)\<close>, the file is a layout or template
  file and not all of them are route groups, then the route-path deriver returns "not
  eligible". The file is then not relocated: when the passes succeed, \<open>transform\<close> returns
  the text with their edits committed and leaves the file system as it was.
\<close>

theorem computeTanstackTargetPath_exclusion:
  assumes "routeDirectorySegments filename runtimeConfig = Some rel"
    and "(\<exists>s \<in> set rel. isPrivateSegment s)
         \<or> (\<exists>s \<in> set rel. isParallelSegment s)
         \<or> ((\<exists>s \<in> set rel. isRouteGroupSegment s)
             \<and> isRouteFile [''layout'', ''template''] (fileBaseOf filename)
             \<and> (\<exists>s \<in> set rel. \<not> isRouteGroupSegment s))"
  shows "computeTanstackTargetPath filename runtimeConfig = None
         \<and> (resolveRuntimeConfig jsonParse w filename options = (Inr runtimeConfig, w1)
              \<and> awaitAll (map passes (filter (\<lambda>i. i \<in> enabledMigrations runtimeConfig)
                                          MIGRATION_IDS)) = Inr results
            \<longrightarrow> transform jsonParse passes commitEdits w filename options
                  = (Inr (Some (commitEdits (mergeEdits results))), w1)
                \<and> files w1 = files w)"
proof -
  obtain appIndex where
    idx: "findSubPathIndex (splitOn isSlash filename)
            (normalizeDirSegments (appDirectory runtimeConfig)) = Some appIndex"
    and rel: "rel = relativeRouteSegments (splitOn isSlash filename)
                (appIndex + length (normalizeDirSegments (appDirectory runtimeConfig)))"
    using assms(1) by (auto simp: routeDirectorySegments_def Let_def split: option.splits)
  have "isExcludedBranch rel (last (splitOn isSlash filename))"
    using assms(2) by (auto simp: isExcludedBranch_def Let_def list_ex_iff list_all_iff fileBaseOf_def)
  then have "isExcludedBranch
               (relativeRouteSegments (splitOn isSlash filename)
                  (appIndex + length (normalizeDirSegments (appDirectory runtimeConfig))))
               (last (splitOn isSlash filename))"
    by (simp only: rel)
  then have none: "computeTanstackTargetPath filename runtimeConfig = None"
    by (simp add: computeTanstackTargetPath_def Let_def idx)
  have stays: "transform jsonParse passes commitEdits w filename options
                 = (Inr (Some (commitEdits (mergeEdits results))), w1)
               \<and> files w1 = files w"
    if h: "resolveRuntimeConfig jsonParse w filename options = (Inr runtimeConfig, w1)
           \<and> awaitAll (map passes (filter (\<lambda>i. i \<in> enabledMigrations runtimeConfig)
                                        MIGRATION_IDS)) = Inr results"
  proof -
    from h have "transform jsonParse passes commitEdits w filename options
                   = (Inr (Some (commitEdits (mergeEdits results))), w1)"
      by (simp add: transform_def Let_def none)
    moreover from h have "files w1 = files w"
      using resolveRuntimeConfig_keeps by blast
    ultimately show ?thesis by simp
  qed
  show ?thesis
    using none stays by blast
qed

theorem computeTanstackTargetPath_exclusion_witness:
  "routeDirectorySegments ''app/dashboard/@modal/page.tsx'' defaultRuntimeConfig
     = Some [''dashboard'', ''@modal'']
   \<and> isParallelSegment ''@modal''
   \<and> computeTanstackTargetPath ''app/dashboard/@modal/page.tsx'' defaultRuntimeConfig = None
   \<and> routeDirectorySegments ''app/_lib/page.tsx'' defaultRuntimeConfig = Some [''_lib'']
   \<and> isPrivateSegment ''_lib''
   \<and> computeTanstackTargetPath ''app/_lib/page.tsx'' defaultRuntimeConfig = None
   \<and> routeDirectorySegments ''app/(shop)/cart/layout.tsx'' defaultRuntimeConfig
       = Some [''(shop)'', ''cart'']
   \<and> isRouteGroupSegment ''(shop)'' \<and> \<not> isRouteGroupSegment ''cart''
   \<and> isRouteFile [''layout'', ''template''] (fileBaseOf ''app/(shop)/cart/layout.tsx'')
   \<and> computeTanstackTargetPath ''app/(shop)/cart/layout.tsx'' defaultRuntimeConfig = None
   \<and> fst (transform noJson idlePasses plainText emptyWorld ''app/dashboard/@modal/page.tsx'' None)
       = Inr (Some (plainText []))
   \<and> files (snd (transform noJson idlePasses plainText emptyWorld ''app/dashboard/@modal/page.tsx''
                      None)) = files emptyWorld"
proof -
  let ?w1 = "snd (resolveRuntimeConfig noJson emptyWorld ''app/dashboard/@modal/page.tsx'' None)"
  have "fst (resolveRuntimeConfig noJson emptyWorld ''app/dashboard/@modal/page.tsx'' None)
          = Inr defaultRuntimeConfig"
    by code_simp
  then have t1: "resolveRuntimeConfig noJson emptyWorld ''app/dashboard/@modal/page.tsx'' None
                   = (Inr defaultRuntimeConfig, ?w1)"
    by (metis prod.collapse)
  have t2: "awaitAll (map idlePasses
                        (filter (\<lambda>i. i \<in> enabledMigrations defaultRuntimeConfig) MIGRATION_IDS))
              = Inr [None, None, None, None, None, None, None, None]"
    by code_simp
  have t3: "mergeEdits [None, None, None, None, None, None, None, None] = ([] :: unit list)"
    by code_simp
  have a1: "routeDirectorySegments ''app/dashboard/@modal/page.tsx'' defaultRuntimeConfig
              = Some [''dashboard'', ''@modal'']" by code_simp
  have a2: "isParallelSegment ''@modal''" by code_simp
  have b1: "routeDirectorySegments ''app/_lib/page.tsx'' defaultRuntimeConfig = Some [''_lib'']"
    by code_simp
  have b2: "isPrivateSegment ''_lib''" by code_simp
  have c1: "routeDirectorySegments ''app/(shop)/cart/layout.tsx'' defaultRuntimeConfig
              = Some [''(shop)'', ''cart'']" by code_simp
  have c2: "isRouteGroupSegment ''(shop)''" by code_simp
  have c3: "\<not> isRouteGroupSegment ''cart''" by code_simp
  have c4: "isRouteFile [''layout'', ''template''] (fileBaseOf ''app/(shop)/cart/layout.tsx'')"
    by code_simp
  have ha: "(\<exists>s \<in> set [''dashboard'', ''@modal'']. isPrivateSegment s)
         \<or> (\<exists>s \<in> set [''dashboard'', ''@modal'']. isParallelSegment s)
         \<or> ((\<exists>s \<in> set [''dashboard'', ''@modal'']. isRouteGroupSegment s)
             \<and> isRouteFile [''layout'', ''template''] (fileBaseOf ''app/dashboard/@modal/page.tsx'')
             \<and> (\<exists>s \<in> set [''dashboard'', ''@modal'']. \<not> isRouteGroupSegment s))"
    using a2 by simp
  have hb: "(\<exists>s \<in> set [''_lib'']. isPrivateSegment s)
         \<or> (\<exists>s \<in> set [''_lib'']. isParallelSegment s)
         \<or> ((\<exists>s \<in> set [''_lib'']. isRouteGroupSegment s)
             \<and> isRouteFile [''layout'', ''template''] (fileBaseOf ''app/_lib/page.tsx'')
             \<and> (\<exists>s \<in> set [''_lib'']. \<not> isRouteGroupSegment s))"
    using b2 by simp
  have hc: "(\<exists>s \<in> set [''(shop)'', ''cart'']. isPrivateSegment s)
         \<or> (\<exists>s \<in> set [''(shop)'', ''cart'']. isParallelSegment s)
         \<or> ((\<exists>s \<in> set [''(shop)'', ''cart'']. isRouteGroupSegment s)
             \<and> isRouteFile [''layout'', ''template''] (fileBaseOf ''app/(shop)/cart/layout.tsx'')
             \<and> (\<exists>s \<in> set [''(shop)'', ''cart'']. \<not> isRouteGroupSegment s))"
    using c2 c3 c4 by simp
  note ta = computeTanstackTargetPath_exclusion [OF a1 ha, where jsonParse = noJson
      and w = emptyWorld and options = None and ?w1.0 = ?w1 and passes = idlePasses
      and results = "[None, None, None, None, None, None, None, None]" and commitEdits = plainText]
  have a: "computeTanstackTargetPath ''app/dashboard/@modal/page.tsx'' defaultRuntimeConfig = None"
    using ta by blast
  have tr: "transform noJson idlePasses plainText emptyWorld ''app/dashboard/@modal/page.tsx'' None
              = (Inr (Some (plainText [])), ?w1)
            \<and> files ?w1 = files emptyWorld"
    using ta t1 t2 t3 by simp
  have b: "computeTanstackTargetPath ''app/_lib/page.tsx'' defaultRuntimeConfig = None"
    using computeTanstackTargetPath_exclusion [OF b1 hb] by blast
  have c: "computeTanstackTargetPath ''app/(shop)/cart/layout.tsx'' defaultRuntimeConfig = None"
    using computeTanstackTargetPath_exclusion [OF c1 hc] by blast
  from tr have tr1: "fst (transform noJson idlePasses plainText emptyWorld
                            ''app/dashboard/@modal/page.tsx'' None) = Inr (Some (plainText []))"
    and tr2: "files (snd (transform noJson idlePasses plainText emptyWorld
                            ''app/dashboard/@modal/page.tsx'' None)) = files emptyWorld"
    by simp_all
  show ?thesis using a1 a2 a b1 b2 b c1 c2 c3 c4 c tr1 tr2 by simp
qed

text \<open>
  C4 as stated fails for a directory that is named by the underscore alone: it has a
  leading underscore, and the file below it is relocated.
\<close>

theorem computeTanstackTargetPath_bare_underscore_counterexample:
  "routeDirectorySegments ''app/_/page.tsx'' defaultRuntimeConfig = Some [''_'']
   \<and> startsWith ''_'' ''_''
   \<and> computeTanstackTargetPath ''app/_/page.tsx'' defaultRuntimeConfig
       = Some ''routes/_/index.tsx''"
  by code_simp

end
